theory Spec2Isabelle
  imports Complex_Main
begin

section \<open>Scene graph, as the extraction reads it\<close>

text \<open>
  The attribute categories of a scene node (\<open>FbxNodeAttribute::EType\<close>), in the
  order of the enumeration.
\<close>

datatype EType =
    eUnknown | eNull | eMarker | eSkeleton | eMesh | eNurbs | ePatch | eCamera
  | eCameraStereo | eCameraSwitcher | eLight | eOpticalReference | eOpticalMarker
  | eNurbsCurve | eTrimNurbsSurface | eBoundary | eNurbsSurface | eShape | eLODGroup
  | eSubDiv | eCachedEffect | eLine

text \<open>
  Modelled from the spec: the declaration of \<open>OzzImporter::NodeType\<close> is not among
  the sources. It is the specification's selection configuration, "a set of boolean
  flags, one per attribute category, plus an any override"; the field names are those
  \<open>IsTypeSelected\<close> reads.
\<close>

record NodeType =
  skeleton :: bool
  marker :: bool
  camera :: bool
  geometry :: bool
  light :: bool
  any :: bool

text \<open>
  \<open>IsTypeSelected\<close> (fbx\_skeleton.cc, lines 43--92): the early out on \<open>any\<close>, then
  the switch, case by case, with the \<open>default\<close> branch last.
\<close>

definition IsTypeSelected :: "NodeType \<Rightarrow> EType \<Rightarrow> bool" where
  "IsTypeSelected types node_type =
     (if any types then True
      else (case node_type of
          eSkeleton \<Rightarrow> skeleton types
        | eMarker \<Rightarrow> marker types
        | eMesh \<Rightarrow> geometry types
        | eNurbs \<Rightarrow> geometry types
        | ePatch \<Rightarrow> geometry types
        | eNurbsCurve \<Rightarrow> geometry types
        | eTrimNurbsSurface \<Rightarrow> geometry types
        | eBoundary \<Rightarrow> geometry types
        | eNurbsSurface \<Rightarrow> geometry types
        | eShape \<Rightarrow> geometry types
        | eSubDiv \<Rightarrow> geometry types
        | eLine \<Rightarrow> geometry types
        | eCameraStereo \<Rightarrow> camera types
        | eCamera \<Rightarrow> camera types
        | eLight \<Rightarrow> light types
        | eUnknown \<Rightarrow> False
        | eNull \<Rightarrow> False
        | eCameraSwitcher \<Rightarrow> False
        | eOpticalReference \<Rightarrow> False
        | eOpticalMarker \<Rightarrow> False
        | eCachedEffect \<Rightarrow> False
        | eLODGroup \<Rightarrow> False))"

text \<open>
  The categories the specification names, as lists of enumeration values: the ten
  geometry-like ones, and the camera category (camera and stereo camera).
\<close>

definition geometry_like :: "EType list" where
  "geometry_like = [eMesh, eNurbs, ePatch, eNurbsCurve, eTrimNurbsSurface, eBoundary,
     eNurbsSurface, eShape, eSubDiv, eLine]"

definition camera_like :: "EType list" where
  "camera_like = [eCamera, eCameraStereo]"

text \<open>
  A binding cluster (\<open>FbxCluster\<close>): the node it links to (a pointer, possibly NULL)
  and the link transform stored at bind time. Nodes are compared by address in the
  source, so every node carries its address \<open>node_ptr\<close>.
\<close>

datatype 'm FbxCluster =
  FbxCluster (GetLink: "nat option") (GetTransformLinkMatrix: 'm)

text \<open>
  A skin deformer is its clusters (\<open>GetCluster(i)\<close> for \<open>i < GetClusterCount()\<close>,
  each possibly NULL); a mesh is its skin deformers (\<open>GetDeformer(i, eSkin)\<close> for
  \<open>i < GetDeformerCount(eSkin)\<close>).
\<close>

type_synonym 'm FbxSkin = "'m FbxCluster option list"

type_synonym 'm FbxMesh = "'m FbxSkin list"

datatype 'm FbxNode =
  FbxNode (node_ptr: nat) (GetName: string) (GetNodeAttribute: "EType option")
    (EvaluateGlobalTransform: 'm) (GetMesh: "'m FbxMesh option")
    (GetChildren: "'m FbxNode list")

text \<open>
  A pose snapshot (\<open>FbxPose\<close>): the bind-pose flag and the entries (node address,
  matrix). \<open>Find\<close> is the index of the node's entry or \<open>-1\<close>; \<open>GetMatrix\<close> reads
  the matrix of an entry.
\<close>

datatype 'm FbxPose =
  FbxPose (IsBindPose: bool) (pose_entries: "(nat \<times> 'm) list")

fun Find_from :: "(nat \<times> 'm) list \<Rightarrow> nat \<Rightarrow> int \<Rightarrow> int" where
  "Find_from [] n i = - 1"
| "Find_from (e # es) n i = (if fst e = n then i else Find_from es n (i + 1))"

definition Find :: "'m FbxPose \<Rightarrow> nat \<Rightarrow> int" where
  "Find pose n = Find_from (pose_entries pose) n 0"

definition GetMatrix :: "'m FbxPose \<Rightarrow> int \<Rightarrow> 'm" where
  "GetMatrix pose i = snd (pose_entries pose ! nat i)"

text \<open>
  The scene: its root node and its poses (\<open>GetPose(i)\<close> for \<open>i < GetPoseCount()\<close>,
  each possibly NULL). The loader gives the scene and the converter, whose
  \<open>ConvertTransform\<close> takes the matrix and the transform its out-parameter points at,
  and returns the success flag with the transform it leaves there.
\<close>

datatype 'm FbxScene =
  FbxScene (GetRootNode: "'m FbxNode") (GetPoses: "'m FbxPose option list")

record ('m, 't) FbxSceneLoader =
  scene :: "'m FbxScene"
  ConvertTransform :: "'m \<Rightarrow> 't \<Rightarrow> bool \<times> 't"

text \<open>
  What the source takes from outside this repository and this file: the product, the
  inverse and the default constructor (identity) of \<open>FbxAMatrix\<close>, and the transform
  of a default-constructed joint.
\<close>

record ('m, 't) External =
  mat_times :: "'m \<Rightarrow> 'm \<Rightarrow> 'm"
  mat_Inverse :: "'m \<Rightarrow> 'm"
  mat_identity :: 'm
  joint_transform0 :: 't

section \<open>The output skeleton\<close>

text \<open>
  Modelled from the spec: the declaration of \<open>RawSkeleton\<close> is not among the sources.
  A joint "has a name, an ordered sequence of child joints and a transform"; the
  skeleton is "an ordered sequence of root joints". The field names are those
  \<open>RecurseNode\<close> uses; the transform type is left open.
\<close>

datatype 't Joint =
  Joint (children: "'t Joint list") (name: string) (transform: 't)

record 't RawSkeleton =
  roots :: "'t Joint list"

text \<open>
  Pointers into the skeleton are paths of child indices from \<open>roots\<close>. A pointer to a
  children vector is the path of the joint that owns it (\<open>[]\<close> for \<open>roots\<close>); a pointer
  to a joint is the path of its vector followed by its index. Reads and writes through a
  path that leads nowhere do nothing; the walk below only builds paths to joints it has
  just added.
\<close>

fun Children_at :: "nat list \<Rightarrow> 't Joint list \<Rightarrow> 't Joint list" where
  "Children_at [] js = js"
| "Children_at (i # p) js =
     (if i < length js then Children_at p (children (js ! i)) else [])"

fun Children_update ::
  "nat list \<Rightarrow> ('t Joint list \<Rightarrow> 't Joint list) \<Rightarrow> 't Joint list \<Rightarrow> 't Joint list" where
  "Children_update [] f js = f js"
| "Children_update (i # p) f js =
     (if i < length js
      then js[i := Joint (Children_update p f (children (js ! i)))
                    (name (js ! i)) (transform (js ! i))]
      else js)"

definition Joint_at :: "nat list \<Rightarrow> 't Joint list \<Rightarrow> 't Joint option" where
  "Joint_at p js =
     (if p = [] then None
      else let v = Children_at (butlast p) js
           in if last p < length v then Some (v ! last p) else None)"

definition Joint_update ::
  "nat list \<Rightarrow> ('t Joint \<Rightarrow> 't Joint) \<Rightarrow> 't Joint list \<Rightarrow> 't Joint list" where
  "Joint_update p f js =
     (if p = [] then js
      else Children_update (butlast p)
             (\<lambda>v. if last p < length v then v[last p := f (v ! last p)] else v) js)"

section \<open>The hierarchy builder\<close>

datatype RecurseReturn = kError | kSkeletonFound | kNoSkeleton

text \<open>
  The state the walk changes: the caller's skeleton and the error log
  (\<open>ozz::log::Err()\<close>, one entry per statement). \<open>visited\<close> is a ghost field: every
  entry of \<open>RecurseNode\<close> appends the address of its node, and nothing reads it.
\<close>

record 't WalkState =
  out_skeleton :: "'t RawSkeleton"
  err_log :: "string list"
  visited :: "nat list"

definition joint_error_message :: "string \<Rightarrow> string" where
  "joint_error_message n =
     ''Failed to extract skeleton transform for joint '' @ [CHR 0x22] @ n @ [CHR 0x22] @ ''.''"

text \<open>
  The bind pose of a node (lines 121--147). The cluster loop stops at the first cluster
  whose link is the node; \<open>None\<close> is \<open>node_global_found = false\<close>.
\<close>

fun cluster_loop :: "nat \<Rightarrow> 'm FbxCluster list \<Rightarrow> 'm option" where
  "cluster_loop n [] = None"
| "cluster_loop n (cluster # rest) =
     (if GetLink cluster = Some n then Some (GetTransformLinkMatrix cluster)
      else cluster_loop n rest)"

text \<open>
  The pose loop stops at the first non-NULL pose flagged as bind pose that holds the
  node; \<open>None\<close> leaves \<open>node_global\<close> as it was. The source reinterprets the
  \<open>FbxMatrix\<close> of the pose as an \<open>FbxAMatrix\<close> (a cast of the same sixteen numbers),
  so both are the one matrix type here.
\<close>

fun pose_loop :: "nat \<Rightarrow> 'm FbxPose option list \<Rightarrow> 'm option" where
  "pose_loop n [] = None"
| "pose_loop n (pose # rest) =
     (case pose of
        None \<Rightarrow> pose_loop n rest
      | Some p \<Rightarrow>
          if IsBindPose p
          then (let found_node = Find p n
                in if found_node \<ge> 0 then Some (GetMatrix p found_node)
                   else pose_loop n rest)
          else pose_loop n rest)"

definition node_global_of ::
  "'m FbxNode \<Rightarrow> 'm FbxCluster list \<Rightarrow> ('m, 't) FbxSceneLoader \<Rightarrow> 'm" where
  "node_global_of node clusters loader =
     (let node_global = EvaluateGlobalTransform node
      in case cluster_loop (node_ptr node) clusters of
           Some m \<Rightarrow> m
         | None \<Rightarrow>
             (case pose_loop (node_ptr node) (GetPoses (scene loader)) of
                Some m \<Rightarrow> m
              | None \<Rightarrow> node_global))"

text \<open>
  The accepted branch of \<open>RecurseNode\<close> up to the conversion (lines 109--151): the new
  joint is appended to the parent's children (or to the roots), named, and given the
  transform the converter leaves. The result is the converter's flag, the pointer
  \<open>this_joint\<close>, \<open>node_global\<close> and the skeleton's roots after the writes.
  \<open>parent\<close> is the pointer \<open>_parent\<close> (\<open>None\<close> for NULL).
\<close>

definition new_joint ::
  "('m, 't) External \<Rightarrow> 'm FbxNode \<Rightarrow> 'm FbxCluster list \<Rightarrow> ('m, 't) FbxSceneLoader \<Rightarrow>
   't Joint list \<Rightarrow> nat list option \<Rightarrow> 'm \<Rightarrow> bool \<times> nat list \<times> 'm \<times> 't Joint list" where
  "new_joint ex node clusters loader rs parent parent_global_inv =
     (let sibling = (case parent of Some p \<Rightarrow> p | None \<Rightarrow> []);
          rs1 = Children_update sibling
                  (\<lambda>v. v @ [Joint [] [] (joint_transform0 ex)]) rs;
          this_joint = sibling @ [length (Children_at sibling rs1) - 1];
          rs2 = Joint_update this_joint
                  (\<lambda>j. Joint (children j) (GetName node) (transform j)) rs1;
          node_global = node_global_of node clusters loader;
          node_local = mat_times ex parent_global_inv node_global;
          (ok, t) = ConvertTransform loader node_local
                      (case Joint_at this_joint rs2 of
                         Some j \<Rightarrow> transform j
                       | None \<Rightarrow> joint_transform0 ex);
          rs3 = Joint_update this_joint
                  (\<lambda>j. Joint (children j) (name j) t) rs2
      in (ok, this_joint, node_global, rs3))"

text \<open>
  \<open>RecurseNode\<close> (lines 94--174), with the loop over the children as
  \<open>RecurseNode_children\<close>, which carries \<open>skeleton_found\<close>.
\<close>

fun RecurseNode ::
  "('m, 't) External \<Rightarrow> 'm FbxNode \<Rightarrow> 'm FbxCluster list \<Rightarrow> ('m, 't) FbxSceneLoader \<Rightarrow>
   NodeType \<Rightarrow> 't WalkState \<Rightarrow> nat list option \<Rightarrow> 'm \<Rightarrow> RecurseReturn \<times> 't WalkState"
and RecurseNode_children ::
  "('m, 't) External \<Rightarrow> 'm FbxNode list \<Rightarrow> 'm FbxCluster list \<Rightarrow> ('m, 't) FbxSceneLoader \<Rightarrow>
   NodeType \<Rightarrow> 't WalkState \<Rightarrow> nat list option \<Rightarrow> 'm \<Rightarrow> bool \<Rightarrow> RecurseReturn \<times> 't WalkState"
where
  "RecurseNode ex (FbxNode ptr nm attr glob mesh childs) clusters loader types st parent
     parent_global_inv =
     (if (case attr of None \<Rightarrow> False | Some a \<Rightarrow> IsTypeSelected types a)
      then
        (case new_joint ex (FbxNode ptr nm attr glob mesh childs) clusters loader
                (roots (out_skeleton st)) parent parent_global_inv of
           (ok, this_joint, node_global, rs3) \<Rightarrow>
             if \<not> ok
             then (kError,
                   st\<lparr>out_skeleton := \<lparr>roots = rs3\<rparr>,
                      err_log := err_log st @ [joint_error_message nm],
                      visited := visited st @ [ptr]\<rparr>)
             else RecurseNode_children ex childs clusters loader types
                    (st\<lparr>out_skeleton := \<lparr>roots = rs3\<rparr>, visited := visited st @ [ptr]\<rparr>)
                    (Some this_joint) (mat_Inverse ex node_global) True)
      else RecurseNode_children ex childs clusters loader types
             (st\<lparr>visited := visited st @ [ptr]\<rparr>) parent parent_global_inv False)"
| "RecurseNode_children ex [] clusters loader types st parent parent_global_inv
     skeleton_found =
     (if skeleton_found then kSkeletonFound else kNoSkeleton, st)"
| "RecurseNode_children ex (child # rest) clusters loader types st parent parent_global_inv
     skeleton_found =
     (case RecurseNode ex child clusters loader types st parent parent_global_inv of
        (ret, st') \<Rightarrow>
          if ret = kError then (ret, st')
          else RecurseNode_children ex rest clusters loader types st' parent
                 parent_global_inv (skeleton_found \<or> ret = kSkeletonFound))"

section \<open>The binding collector\<close>

text \<open>
  \<open>CollectClusters\<close> (lines 176--196): the clusters of one skin that are not NULL, the
  skins of one mesh in order, then the children in order.
\<close>

fun skin_loop :: "'m FbxSkin \<Rightarrow> 'm FbxCluster list \<Rightarrow> 'm FbxCluster list" where
  "skin_loop [] clusters = clusters"
| "skin_loop (cluster # rest) clusters =
     (case cluster of
        Some c \<Rightarrow> skin_loop rest (clusters @ [c])
      | None \<Rightarrow> skin_loop rest clusters)"

fun deformer_loop :: "'m FbxMesh \<Rightarrow> 'm FbxCluster list \<Rightarrow> 'm FbxCluster list" where
  "deformer_loop [] clusters = clusters"
| "deformer_loop (skin # rest) clusters = deformer_loop rest (skin_loop skin clusters)"

fun CollectClusters :: "'m FbxNode \<Rightarrow> 'm FbxCluster list \<Rightarrow> 'm FbxCluster list"
and CollectClusters_children :: "'m FbxNode list \<Rightarrow> 'm FbxCluster list \<Rightarrow> 'm FbxCluster list"
where
  "CollectClusters (FbxNode ptr nm attr glob mesh childs) clusters =
     CollectClusters_children childs
       (case mesh of
          Some fbx_mesh \<Rightarrow> deformer_loop fbx_mesh clusters
        | None \<Rightarrow> clusters)"
| "CollectClusters_children [] clusters = clusters"
| "CollectClusters_children (child # rest) clusters =
     CollectClusters_children rest (CollectClusters child clusters)"

section \<open>The entry point\<close>

text \<open>
  \<open>ExtractSkeleton\<close> (lines 199--215): the clusters are collected into a fresh vector,
  the walk starts at the root with a NULL parent and the identity, and \<open>report\<close>
  (lines 207--214) logs the failure and gives the boolean. The result is the boolean
  with the state the call leaves: the caller's skeleton, the log, the nodes entered.
\<close>

definition no_skeleton_message :: string where
  "no_skeleton_message = ''No skeleton found in Fbx scene.''"

definition extraction_failed_message :: string where
  "extraction_failed_message = ''Failed to extract skeleton.''"

definition report :: "RecurseReturn \<times> 't WalkState \<Rightarrow> bool \<times> 't WalkState" where
  "report r =
     (case r of
        (ret, st) \<Rightarrow>
          if ret = kNoSkeleton
          then (False, st\<lparr>err_log := err_log st @ [no_skeleton_message]\<rparr>)
          else if ret = kError
          then (False, st\<lparr>err_log := err_log st @ [extraction_failed_message]\<rparr>)
          else (True, st))"

definition ExtractSkeleton ::
  "('m, 't) External \<Rightarrow> ('m, 't) FbxSceneLoader \<Rightarrow> NodeType \<Rightarrow> 't RawSkeleton \<Rightarrow>
   bool \<times> 't WalkState" where
  "ExtractSkeleton ex loader types skel =
     (let clusters = CollectClusters (GetRootNode (scene loader)) []
      in report (RecurseNode ex (GetRootNode (scene loader)) clusters loader types
                   \<lparr>out_skeleton = skel, err_log = [], visited = []\<rparr> None
                   (mat_identity ex)))"

text \<open>
  The two failures of the specification, read off the result: the boolean is false and
  the last line of the log says which.
\<close>

definition NothingFound :: "bool \<times> 't WalkState \<Rightarrow> bool" where
  "NothingFound res \<longleftrightarrow>
     \<not> fst res \<and> err_log (snd res) \<noteq> [] \<and> last (err_log (snd res)) = no_skeleton_message"

definition ConversionFailure :: "bool \<times> 't WalkState \<Rightarrow> bool" where
  "ConversionFailure res \<longleftrightarrow>
     \<not> fst res \<and> err_log (snd res) \<noteq> []
     \<and> last (err_log (snd res)) = extraction_failed_message"

text \<open>The roots a call has added to the caller's skeleton \<open>skel\<close>.\<close>

definition added_roots :: "'t RawSkeleton \<Rightarrow> bool \<times> 't WalkState \<Rightarrow> 't Joint list" where
  "added_roots skel res = drop (length (roots skel)) (roots (out_skeleton (snd res)))"

section \<open>The walk as a function of the scene\<close>

text \<open>
  A node is accepted when it has an attribute and the classifier selects its type: the
  test of line 105.
\<close>

definition accepted :: "NodeType \<Rightarrow> 'm FbxNode \<Rightarrow> bool" where
  "accepted types node =
     (case GetNodeAttribute node of None \<Rightarrow> False | Some a \<Rightarrow> IsTypeSelected types a)"

text \<open>The nodes of a subtree in depth-first pre-order, children in their order.\<close>

fun preorder :: "'m FbxNode \<Rightarrow> 'm FbxNode list"
and preorder_children :: "'m FbxNode list \<Rightarrow> 'm FbxNode list" where
  "preorder (FbxNode ptr nm attr glob mesh childs) =
     FbxNode ptr nm attr glob mesh childs # preorder_children childs"
| "preorder_children [] = []"
| "preorder_children (child # rest) = preorder child @ preorder_children rest"

text \<open>
  What the converter answers for a new joint: it is given the product of the parent's
  inverse and the node's bind pose, and the transform of a default-constructed joint.
\<close>

definition converted ::
  "('m, 't) External \<Rightarrow> ('m, 't) FbxSceneLoader \<Rightarrow> 'm \<Rightarrow> 'm \<Rightarrow> bool \<times> 't" where
  "converted ex loader parent_global_inv node_global =
     ConvertTransform loader (mat_times ex parent_global_inv node_global)
       (joint_transform0 ex)"

text \<open>
  One call of \<open>RecurseNode\<close> without the state: its return value, the joints it appends
  to the vector the parent pointer selects, the lines it logs and the nodes it enters.
  \<open>RecurseNode_appends\<close> below proves that this is what the call does to the state.
\<close>

fun walk_node ::
  "('m, 't) External \<Rightarrow> 'm FbxCluster list \<Rightarrow> ('m, 't) FbxSceneLoader \<Rightarrow> NodeType \<Rightarrow>
   'm FbxNode \<Rightarrow> 'm \<Rightarrow> RecurseReturn \<times> 't Joint list \<times> string list \<times> nat list"
and walk_children ::
  "('m, 't) External \<Rightarrow> 'm FbxCluster list \<Rightarrow> ('m, 't) FbxSceneLoader \<Rightarrow> NodeType \<Rightarrow>
   'm FbxNode list \<Rightarrow> 'm \<Rightarrow> bool \<Rightarrow> RecurseReturn \<times> 't Joint list \<times> string list \<times> nat list"
where
  "walk_node ex clusters loader types (FbxNode ptr nm attr glob mesh childs) pinv =
     (if accepted types (FbxNode ptr nm attr glob mesh childs)
      then
        (let g = node_global_of (FbxNode ptr nm attr glob mesh childs) clusters loader
         in case converted ex loader pinv g of
              (ok, t) \<Rightarrow>
                if \<not> ok then (kError, [Joint [] nm t], [joint_error_message nm], [ptr])
                else (case walk_children ex clusters loader types childs
                             (mat_Inverse ex g) True of
                        (r, js, lg, vs) \<Rightarrow> (r, [Joint js nm t], lg, ptr # vs)))
      else (case walk_children ex clusters loader types childs pinv False of
              (r, js, lg, vs) \<Rightarrow> (r, js, lg, ptr # vs)))"
| "walk_children ex clusters loader types [] pinv found =
     (if found then kSkeletonFound else kNoSkeleton, [], [], [])"
| "walk_children ex clusters loader types (child # rest) pinv found =
     (case walk_node ex clusters loader types child pinv of
        (r, js, lg, vs) \<Rightarrow>
          if r = kError then (r, js, lg, vs)
          else (case walk_children ex clusters loader types rest pinv
                       (found \<or> r = kSkeletonFound) of
                  (r', js', lg', vs') \<Rightarrow> (r', js @ js', lg @ lg', vs @ vs')))"

text \<open>A path is valid in a forest when every index on it exists.\<close>

fun valid_path :: "nat list \<Rightarrow> 't Joint list \<Rightarrow> bool" where
  "valid_path [] js = True"
| "valid_path (i # p) js = (i < length js \<and> valid_path p (children (js ! i)))"

text \<open>
  The state after a call that returned \<open>w\<close>: the joints go to the end of the vector
  at \<open>sib\<close>, the lines to the end of the log.
\<close>

definition sibling_of :: "nat list option \<Rightarrow> nat list" where
  "sibling_of parent = (case parent of Some p \<Rightarrow> p | None \<Rightarrow> [])"

definition apply_walk ::
  "'t WalkState \<Rightarrow> nat list \<Rightarrow> RecurseReturn \<times> 't Joint list \<times> string list \<times> nat list \<Rightarrow>
   RecurseReturn \<times> 't WalkState" where
  "apply_walk st sib w =
     (case w of
        (r, js, lg, vs) \<Rightarrow>
          (r, st\<lparr>out_skeleton :=
                   \<lparr>roots = Children_update sib (\<lambda>v. v @ js) (roots (out_skeleton st))\<rparr>,
                 err_log := err_log st @ lg,
                 visited := visited st @ vs\<rparr>))"

section \<open>The specification's notions\<close>

text \<open>A node is attributed when it carries an attribute of any category.\<close>

definition attributed :: "'m FbxNode \<Rightarrow> bool" where
  "attributed node \<longleftrightarrow> GetNodeAttribute node \<noteq> None"

text \<open>
  The binding clusters of one node: those of every skin deformer of its mesh, NULL
  entries left out. \<open>all_clusters\<close> gathers them over the whole scene in pre-order.
\<close>

definition own_clusters :: "'m FbxNode \<Rightarrow> 'm FbxCluster list" where
  "own_clusters node =
     (case GetMesh node of
        None \<Rightarrow> []
      | Some fbx_mesh \<Rightarrow> concat (map (List.map_filter (\<lambda>c. c)) fbx_mesh))"

definition all_clusters :: "'m FbxNode \<Rightarrow> 'm FbxCluster list" where
  "all_clusters root_node = concat (map own_clusters (preorder root_node))"

text \<open>
  What a pose snapshot says about a node: the matrix of the node's first entry, when
  the snapshot is there, is flagged as a bind pose and holds the node.
\<close>

definition bind_pose_entry :: "'m FbxPose option \<Rightarrow> nat \<Rightarrow> 'm option" where
  "bind_pose_entry q n =
     (case q of
        None \<Rightarrow> None
      | Some p \<Rightarrow> if IsBindPose p then map_of (pose_entries p) n else None)"

text \<open>
  The bind pose of a node as section 4.3 of the specification resolves it, first match
  wins: the link transform of the first cluster whose link is the node; without one,
  the matrix of the first bind-pose snapshot that holds the node; without either, the
  node's evaluated world transform.
\<close>

definition resolved_bind_pose ::
  "'m FbxNode \<Rightarrow> 'm FbxCluster list \<Rightarrow> 'm FbxPose option list \<Rightarrow> 'm" where
  "resolved_bind_pose node clusters poses =
     (case List.find (\<lambda>c. GetLink c = Some (node_ptr node)) clusters of
        Some c \<Rightarrow> GetTransformLinkMatrix c
      | None \<Rightarrow>
          (case List.map_filter (\<lambda>q. bind_pose_entry q (node_ptr node)) poses of
             m # _ \<Rightarrow> m
           | [] \<Rightarrow> EvaluateGlobalTransform node))"

text \<open>
  The forest section 4.4 of the specification describes, without the failure: an accepted
  node becomes one joint whose transform is the conversion of the parent context's
  inverse times its own resolved bind pose, and whose children are built in the context
  of its own inverse; any other node passes the context on to its children unchanged.
  \<open>conversions_of\<close> lists, for the same nodes in pre-order, whether the converter
  accepts that product.
\<close>

fun joints_of ::
  "('m, 't) External \<Rightarrow> 'm FbxCluster list \<Rightarrow> ('m, 't) FbxSceneLoader \<Rightarrow> NodeType \<Rightarrow>
   'm FbxNode \<Rightarrow> 'm \<Rightarrow> 't Joint list"
and joints_of_children ::
  "('m, 't) External \<Rightarrow> 'm FbxCluster list \<Rightarrow> ('m, 't) FbxSceneLoader \<Rightarrow> NodeType \<Rightarrow>
   'm FbxNode list \<Rightarrow> 'm \<Rightarrow> 't Joint list"
where
  "joints_of ex clusters loader types (FbxNode ptr nm attr glob mesh childs) pinv =
     (if accepted types (FbxNode ptr nm attr glob mesh childs)
      then
        (let g = resolved_bind_pose (FbxNode ptr nm attr glob mesh childs) clusters
                   (GetPoses (scene loader))
         in [Joint (joints_of_children ex clusters loader types childs (mat_Inverse ex g))
               nm (snd (converted ex loader pinv g))])
      else joints_of_children ex clusters loader types childs pinv)"
| "joints_of_children ex clusters loader types [] pinv = []"
| "joints_of_children ex clusters loader types (child # rest) pinv =
     joints_of ex clusters loader types child pinv
     @ joints_of_children ex clusters loader types rest pinv"

fun conversions_of ::
  "('m, 't) External \<Rightarrow> 'm FbxCluster list \<Rightarrow> ('m, 't) FbxSceneLoader \<Rightarrow> NodeType \<Rightarrow>
   'm FbxNode \<Rightarrow> 'm \<Rightarrow> bool list"
and conversions_of_children ::
  "('m, 't) External \<Rightarrow> 'm FbxCluster list \<Rightarrow> ('m, 't) FbxSceneLoader \<Rightarrow> NodeType \<Rightarrow>
   'm FbxNode list \<Rightarrow> 'm \<Rightarrow> bool list"
where
  "conversions_of ex clusters loader types (FbxNode ptr nm attr glob mesh childs) pinv =
     (if accepted types (FbxNode ptr nm attr glob mesh childs)
      then
        (let g = resolved_bind_pose (FbxNode ptr nm attr glob mesh childs) clusters
                   (GetPoses (scene loader))
         in fst (converted ex loader pinv g)
            # conversions_of_children ex clusters loader types childs (mat_Inverse ex g))
      else conversions_of_children ex clusters loader types childs pinv)"
| "conversions_of_children ex clusters loader types [] pinv = []"
| "conversions_of_children ex clusters loader types (child # rest) pinv =
     conversions_of ex clusters loader types child pinv
     @ conversions_of_children ex clusters loader types rest pinv"

text \<open>
  The names alone: the tree of accepted nodes, each under its nearest accepted ancestor,
  siblings in scene order; and the names of a forest of joints in pre-order.
\<close>

fun shape_of :: "NodeType \<Rightarrow> 'm FbxNode \<Rightarrow> unit Joint list"
and shape_of_children :: "NodeType \<Rightarrow> 'm FbxNode list \<Rightarrow> unit Joint list" where
  "shape_of types (FbxNode ptr nm attr glob mesh childs) =
     (if accepted types (FbxNode ptr nm attr glob mesh childs)
      then [Joint (shape_of_children types childs) nm ()]
      else shape_of_children types childs)"
| "shape_of_children types [] = []"
| "shape_of_children types (child # rest) =
     shape_of types child @ shape_of_children types rest"

fun forget_transform :: "'t Joint \<Rightarrow> unit Joint" where
  "forget_transform (Joint cs nm t) = Joint (map forget_transform cs) nm ()"

fun joint_names :: "'t Joint \<Rightarrow> string list" where
  "joint_names (Joint cs nm t) = nm # concat (map joint_names cs)"

definition forest_names :: "'t Joint list \<Rightarrow> string list" where
  "forest_names js = concat (map joint_names js)"

fun joint_count :: "'t Joint \<Rightarrow> nat" where
  "joint_count (Joint cs nm t) = Suc (sum_list (map joint_count cs))"

definition forest_count :: "'t Joint list \<Rightarrow> nat" where
  "forest_count js = sum_list (map joint_count js)"

text \<open>
  The nodes in pre-order, each with the parent context it is reached in when nothing
  fails before it; and the test that the conversion fails at such a node.
\<close>

fun ctx_preorder ::
  "('m, 't) External \<Rightarrow> 'm FbxCluster list \<Rightarrow> ('m, 't) FbxSceneLoader \<Rightarrow> NodeType \<Rightarrow>
   'm FbxNode \<Rightarrow> 'm \<Rightarrow> ('m FbxNode \<times> 'm) list"
and ctx_preorder_children ::
  "('m, 't) External \<Rightarrow> 'm FbxCluster list \<Rightarrow> ('m, 't) FbxSceneLoader \<Rightarrow> NodeType \<Rightarrow>
   'm FbxNode list \<Rightarrow> 'm \<Rightarrow> ('m FbxNode \<times> 'm) list"
where
  "ctx_preorder ex clusters loader types (FbxNode ptr nm attr glob mesh childs) pinv =
     (FbxNode ptr nm attr glob mesh childs, pinv)
     # ctx_preorder_children ex clusters loader types childs
         (if accepted types (FbxNode ptr nm attr glob mesh childs)
          then mat_Inverse ex
                 (node_global_of (FbxNode ptr nm attr glob mesh childs) clusters loader)
          else pinv)"
| "ctx_preorder_children ex clusters loader types [] pinv = []"
| "ctx_preorder_children ex clusters loader types (child # rest) pinv =
     ctx_preorder ex clusters loader types child pinv
     @ ctx_preorder_children ex clusters loader types rest pinv"

definition conversion_fails ::
  "('m, 't) External \<Rightarrow> 'm FbxCluster list \<Rightarrow> ('m, 't) FbxSceneLoader \<Rightarrow> NodeType \<Rightarrow>
   'm FbxNode \<times> 'm \<Rightarrow> bool" where
  "conversion_fails ex clusters loader types np \<longleftrightarrow>
     accepted types (fst np)
     \<and> \<not> fst (converted ex loader (snd np) (node_global_of (fst np) clusters loader))"

section \<open>Example scenes\<close>

text \<open>
  For the examples matrices are translations along one axis (integers under addition),
  and the converter refuses the matrix \<open>13\<close>, resetting the transform to the identity.
\<close>

definition ex0 :: "(int, int) External" where
  "ex0 = \<lparr>mat_times = (\<lambda>a b. a + b), mat_Inverse = (\<lambda>a. - a), mat_identity = 0,
          joint_transform0 = 0\<rparr>"

definition convert0 :: "int \<Rightarrow> int \<Rightarrow> bool \<times> int" where
  "convert0 m t = (if m = 13 then (False, 0) else (True, m))"

definition types_skeleton :: NodeType where
  "types_skeleton = \<lparr>skeleton = True, marker = False, camera = False, geometry = False,
                     light = False, any = False\<rparr>"

definition types_any :: NodeType where
  "types_any = \<lparr>skeleton = False, marker = False, camera = False, geometry = False,
                light = False, any = True\<rparr>"

text \<open>
  The scenario of the specification: an unattributed root with children A (a skeleton
  node) and B (a camera), and C (a skeleton node) under B.
\<close>

definition scene_abc :: "int FbxScene" where
  "scene_abc = FbxScene
     (FbxNode 1 ''root'' None 0 None
        [FbxNode 2 ''A'' (Some eSkeleton) 5 None [],
         FbxNode 3 ''B'' (Some eCamera) 7 None
           [FbxNode 4 ''C'' (Some eSkeleton) 9 None []]])
     []"

definition loader_abc :: "(int, int) FbxSceneLoader" where
  "loader_abc = \<lparr>scene = scene_abc, ConvertTransform = convert0\<rparr>"

text \<open>
  A scene where the conversion fails: under the root joint (bind pose \<open>1\<close>) the child X
  has bind pose \<open>14\<close>, so its local matrix is \<open>13\<close>; Y is X's next sibling.
\<close>

definition scene_fail :: "int FbxScene" where
  "scene_fail = FbxScene
     (FbxNode 1 ''root'' (Some eSkeleton) 1 None
        [FbxNode 2 ''X'' (Some eSkeleton) 14 None
           [FbxNode 3 ''X1'' (Some eSkeleton) 20 None []],
         FbxNode 4 ''Y'' (Some eSkeleton) 3 None []])
     []"

definition loader_fail :: "(int, int) FbxSceneLoader" where
  "loader_fail = \<lparr>scene = scene_fail, ConvertTransform = convert0\<rparr>"

text \<open>
  A skinned scene: the root is a mesh with two skins, whose clusters (one of them NULL)
  both link to A; the poses are a NULL one, one that is not a bind pose, and a bind pose
  holding B and A.
\<close>

definition scene_skinned :: "int FbxScene" where
  "scene_skinned = FbxScene
     (FbxNode 1 ''mesh'' (Some eMesh) 0
        (Some [[Some (FbxCluster (Some 2) 0), None], [Some (FbxCluster (Some 2) 8)]])
        [FbxNode 2 ''A'' (Some eSkeleton) 5 None [],
         FbxNode 3 ''B'' (Some eSkeleton) 6 None [],
         FbxNode 4 ''E'' (Some eSkeleton) 11 None []])
     [None, Some (FbxPose False [(3, 50)]), Some (FbxPose True [(3, 60), (2, 70)])]"

definition loader_skinned :: "(int, int) FbxSceneLoader" where
  "loader_skinned = \<lparr>scene = scene_skinned, ConvertTransform = convert0\<rparr>"

text \<open>
  A rig: the joint hips (evaluated at 100) is the link of a cluster with transform 2; the
  mesh under it, which holds the skin, is not selected; under the mesh the joint knee
  (evaluated at 200) has the bind-pose entry 7, and its child foot has neither cluster
  nor pose entry and is evaluated at 10.
\<close>

definition scene_rig :: "int FbxScene" where
  "scene_rig = FbxScene
     (FbxNode 1 ''hips'' (Some eSkeleton) 100 None
        [FbxNode 2 ''skin'' (Some eMesh) 0 (Some [[Some (FbxCluster (Some 1) 2)]])
           [FbxNode 3 ''knee'' (Some eSkeleton) 200 None
              [FbxNode 4 ''foot'' (Some eSkeleton) 10 None []]]])
     [Some (FbxPose True [(1, 50), (3, 7)])]"

definition loader_rig :: "(int, int) FbxSceneLoader" where
  "loader_rig = \<lparr>scene = scene_rig, ConvertTransform = convert0\<rparr>"

text \<open>A scene without any attribute.\<close>

definition scene_bare :: "int FbxScene" where
  "scene_bare = FbxScene (FbxNode 1 ''root'' None 0 None [FbxNode 2 ''n'' None 4 None []]) []"

definition loader_bare :: "(int, int) FbxSceneLoader" where
  "loader_bare = \<lparr>scene = scene_bare, ConvertTransform = convert0\<rparr>"

definition empty_skeleton :: "int RawSkeleton" where
  "empty_skeleton = \<lparr>roots = []\<rparr>"

section \<open>The float track sampling job\<close>

text \<open>
  Modelled from the spec: the declarations of \<open>FloatTrack\<close> and of the job are not
  among the sources; the specification has "a single scalar curve" of keyframes. A track
  holds its key times and its values (\<open>times()\<close>, \<open>values()\<close>); the job holds the
  members its constructor initialises: the time, the track pointer and the result
  pointer (an address into the float memory, \<open>None\<close> for NULL). Floats are modelled
  as reals: the comparisons of the source are exact on floats too, and only the
  interpolated value is rounded there.
\<close>

record FloatTrack =
  track_times :: "real list"
  track_values :: "real list"

record FloatTrackSamplingJob =
  time :: real
  track :: "FloatTrack option"
  result :: "nat option"

text \<open>\<open>FloatTrackSamplingJob::Validate\<close> (float\_track\_sampling\_job.cc, lines 40--45).\<close>

definition Validate :: "FloatTrackSamplingJob \<Rightarrow> bool" where
  "Validate job =
     (let success = True;
          success = (success \<and> result job \<noteq> None);
          success = (success \<and> track job \<noteq> None)
      in success)"

text \<open>
  Modelled from the spec: \<open>math::Clamp\<close> and \<open>math::Lerp\<close> come from
  \<open>ozz/base/maths/math\_ex.h\<close>, which is not among the sources. The specification has
  the curve "bounded to a normalized [0,1] time domain" and sampled by "linear
  interpolation"; the source comments "Clamps time in range [0,1]".
\<close>

definition Clamp :: "real \<Rightarrow> real \<Rightarrow> real \<Rightarrow> real" where
  "Clamp a x b = (let m = (if x < b then x else b) in if m < a then a else m)"

definition Lerp :: "real \<Rightarrow> real \<Rightarrow> real \<Rightarrow> real" where
  "Lerp a b alpha = (b - a) * alpha + a"

text \<open>
  \<open>std::upper_bound\<close> on a sorted range: the index of the first element greater than
  the value, the length when there is none.
\<close>

fun upper_bound :: "real list \<Rightarrow> real \<Rightarrow> nat" where
  "upper_bound [] v = 0"
| "upper_bound (x # xs) v = (if v < x then 0 else Suc (upper_bound xs v))"

text \<open>
  A read through a pointer into a range: outside the range the behaviour of the source
  is undefined, which is \<open>None\<close> here.
\<close>

definition read_at :: "real list \<Rightarrow> int \<Rightarrow> real option" where
  "read_at xs i = (if 0 \<le> i \<and> i < int (length xs) then Some (xs ! nat i) else None)"

text \<open>
  \<open>FloatTrackSamplingJob::Run\<close> (lines 47--79) on the float memory \<open>mem\<close>. The
  result is \<open>None\<close> when an assertion fails or a read leaves its range, and otherwise
  the boolean returned with the memory after the call. \<open>ptk1\<close> is the index of the
  pointer of that name, decremented when \<open>upper_bound\<close> gave the end.
\<close>

definition Run ::
  "FloatTrackSamplingJob \<Rightarrow> (nat \<Rightarrow> real) \<Rightarrow> (bool \<times> (nat \<Rightarrow> real)) option" where
  "Run job mem =
     (if \<not> Validate job then Some (False, mem)
      else
        (case (track job, result job) of
           (Some trk, Some res) \<Rightarrow>
             (let clamped_time = Clamp 0 (time job) 1;
                  times = track_times trk;
                  vals = track_values trk
              in if length times \<noteq> length vals then None
                 else
                   (let k = int (upper_bound times clamped_time);
                        ptk1 = (if k = int (length times) then k - 1 else k)
                    in case (read_at times (ptk1 - 1), read_at times ptk1,
                             read_at vals (ptk1 - 1), read_at vals ptk1) of
                         (Some tk0, Some tk1, Some vk0, Some vk1) \<Rightarrow>
                           if \<not> (clamped_time \<ge> tk0 \<and> tk0 \<noteq> tk1) then None
                           else
                             (let alpha = (clamped_time - tk0) / (tk1 - tk0)
                              in Some (True, mem(res := Lerp vk0 vk1 alpha)))
                       | _ \<Rightarrow> None))
         | _ \<Rightarrow> None))"

text \<open>
  A well-formed track: it has a key, its key times increase strictly and start at 0,
  and it has as many values as times (the first assertion of \<open>Run\<close>).
\<close>

definition well_formed :: "FloatTrack \<Rightarrow> bool" where
  "well_formed trk \<longleftrightarrow>
     track_times trk \<noteq> [] \<and> sorted_wrt (<) (track_times trk) \<and> hd (track_times trk) = 0
     \<and> length (track_values trk) = length (track_times trk)"

text \<open>The track of a job, when there is one, is well-formed and has two keys or more.\<close>

definition job_track_ok :: "FloatTrackSamplingJob \<Rightarrow> bool" where
  "job_track_ok job \<longleftrightarrow>
     (case track job of
        None \<Rightarrow> True
      | Some trk \<Rightarrow> well_formed trk \<and> 2 \<le> length (track_times trk))"

text \<open>Two jobs sampled at time 2: a track with the one key 0, a track with keys 0 and 1.\<close>

definition single_key_job :: FloatTrackSamplingJob where
  "single_key_job =
     \<lparr>time = 2, track = Some \<lparr>track_times = [0], track_values = [7]\<rparr>, result = Some 0\<rparr>"

definition two_key_job :: FloatTrackSamplingJob where
  "two_key_job =
     \<lparr>time = 2, track = Some \<lparr>track_times = [0, 1], track_values = [7, 9]\<rparr>, result = Some 0\<rparr>"

section \<open>The node classifier\<close>

text \<open>
  C8. For every selection configuration and attribute category, the classifier accepts
  iff the "any" flag is set, or the category is skeletal-joint, marker, camera or light
  and its own flag is set, or the category is one of the ten geometry-like categories
  and the geometry flag is set; every remaining category is rejected.
\<close>

theorem IsTypeSelected_iff:
  "IsTypeSelected types t \<longleftrightarrow>
     any types
     \<or> (t = eSkeleton \<and> skeleton types)
     \<or> (t = eMarker \<and> marker types)
     \<or> (List.member camera_like t \<and> camera types)
     \<or> (t = eLight \<and> light types)
     \<or> (List.member geometry_like t \<and> geometry types)"
  by (cases t) (simp_all add: IsTypeSelected_def camera_like_def geometry_like_def)

section \<open>Writes through paths\<close>

lemma Children_at_update:
  "valid_path p js \<Longrightarrow> Children_at p (Children_update p f js) = f (Children_at p js)"
  by (induction p arbitrary: js) auto

lemma Children_update_twice:
  "Children_update p g (Children_update p f js) = Children_update p (\<lambda>v. g (f v)) js"
  by (induction p arbitrary: js) auto

lemma Children_update_id [simp]:
  "Children_update p (\<lambda>v. v) js = js"
  by (induction p arbitrary: js) (auto simp: list_update_same_conv)

lemma Children_update_append:
  "Children_update (p @ q) f js = Children_update p (Children_update q f) js"
  by (induction p arbitrary: js) auto

lemma Children_update_cong_at:
  "valid_path p js \<Longrightarrow> f (Children_at p js) = g (Children_at p js) \<Longrightarrow>
   Children_update p f js = Children_update p g js"
  by (induction p arbitrary: js) auto

lemma valid_path_update:
  "valid_path p js \<Longrightarrow> valid_path p (Children_update p f js)"
  by (induction p arbitrary: js) auto

lemma valid_path_snoc:
  "valid_path p js \<Longrightarrow> valid_path (p @ [n]) js \<longleftrightarrow> n < length (Children_at p js)"
  by (induction p arbitrary: js) auto

lemma Joint_update_snoc:
  "Joint_update (p @ [n]) f js =
     Children_update p (\<lambda>v. if n < length v then v[n := f (v ! n)] else v) js"
  by (simp add: Joint_update_def cong del: if_weak_cong)

lemma Joint_at_snoc:
  "Joint_at (p @ [n]) js =
     (if n < length (Children_at p js) then Some (Children_at p js ! n) else None)"
  by (simp add: Joint_at_def Let_def)

lemma append_joint_then_update:
  assumes "valid_path sib rs"
  shows "Joint_update (sib @ [length (Children_at sib rs)]) f
           (Children_update sib (\<lambda>v. v @ [j]) rs) =
         Children_update sib (\<lambda>v. v @ [f j]) rs"
  unfolding Joint_update_snoc Children_update_twice
  by (rule Children_update_cong_at [OF assms]) simp

lemma new_joint_eq:
  assumes v: "valid_path sib rs" and sib: "sib = (case parent of Some p \<Rightarrow> p | None \<Rightarrow> [])"
  shows "new_joint ex node clusters loader rs parent pinv =
    (fst (converted ex loader pinv (node_global_of node clusters loader)),
     sib @ [length (Children_at sib rs)],
     node_global_of node clusters loader,
     Children_update sib (\<lambda>v. v @ [Joint [] (GetName node)
        (snd (converted ex loader pinv (node_global_of node clusters loader)))]) rs)"
proof -
  let ?j0 = "Joint [] [] (joint_transform0 ex)"
  let ?rs1 = "Children_update sib (\<lambda>v. v @ [?j0]) rs"
  let ?n = "length (Children_at sib rs)"
  have at1: "Children_at sib ?rs1 = Children_at sib rs @ [?j0]"
    by (simp add: Children_at_update [OF v])
  have n: "length (Children_at sib ?rs1) - 1 = ?n"
    by (simp add: at1)
  let ?rs2 = "Joint_update (sib @ [?n]) (\<lambda>j. Joint (children j) (GetName node) (transform j)) ?rs1"
  have rs2: "?rs2 = Children_update sib (\<lambda>v. v @ [Joint [] (GetName node) (joint_transform0 ex)]) rs"
    by (simp add: append_joint_then_update [OF v])
  have at2: "Joint_at (sib @ [?n]) ?rs2 = Some (Joint [] (GetName node) (joint_transform0 ex))"
    by (simp add: rs2 Joint_at_snoc Children_at_update [OF v])
  show ?thesis
    unfolding new_joint_def Let_def sib [symmetric] n at2
    by (simp add: rs2 append_joint_then_update [OF v] converted_def split: prod.splits)
qed


lemma append_joint_then_children:
  assumes "valid_path sib rs"
  shows "Children_update (sib @ [length (Children_at sib rs)]) (\<lambda>v. v @ js)
           (Children_update sib (\<lambda>v. v @ [Joint cs nm t]) rs) =
         Children_update sib (\<lambda>v. v @ [Joint (cs @ js) nm t]) rs"
  unfolding Children_update_append Children_update_twice
  by (rule Children_update_cong_at [OF assms]) simp

lemma valid_path_new_joint:
  assumes "valid_path sib rs"
  shows "valid_path (sib @ [length (Children_at sib rs)])
           (Children_update sib (\<lambda>v. v @ [j]) rs)"
  using assms
  by (simp add: valid_path_snoc valid_path_update Children_at_update)

lemma apply_walk_roots:
  "roots (out_skeleton (snd (apply_walk st sib w))) =
     Children_update sib (\<lambda>v. v @ fst (snd w)) (roots (out_skeleton st))"
  by (simp add: apply_walk_def split: prod.splits)

lemma RecurseNode_appends:
  "valid_path (sibling_of parent) (roots (out_skeleton st)) \<Longrightarrow>
   RecurseNode ex node clusters loader types st parent pinv =
     apply_walk st (sibling_of parent) (walk_node ex clusters loader types node pinv)"
  "valid_path (sibling_of parent) (roots (out_skeleton st)) \<Longrightarrow>
   RecurseNode_children ex nodes clusters loader types st parent pinv found =
     apply_walk st (sibling_of parent) (walk_children ex clusters loader types nodes pinv found)"
proof (induction ex node clusters loader types st parent pinv
         and ex nodes clusters loader types st parent pinv found
       rule: RecurseNode_RecurseNode_children.induct)
  case (1 ex ptr nm attr glob mesh childs clusters loader types st parent pinv)
  let ?node = "FbxNode ptr nm attr glob mesh childs"
  let ?sib = "sibling_of parent"
  let ?rs = "roots (out_skeleton st)"
  let ?g = "node_global_of ?node clusters loader"
  let ?c = "converted ex loader pinv ?g"
  let ?tj = "?sib @ [length (Children_at ?sib ?rs)]"
  let ?rs3 = "Children_update ?sib (\<lambda>v. v @ [Joint [] nm (snd ?c)]) ?rs"
  have v: "valid_path ?sib ?rs" by fact
  have nj: "new_joint ex ?node clusters loader ?rs parent pinv = (fst ?c, ?tj, ?g, ?rs3)"
    using new_joint_eq [OF v, of parent ex ?node clusters loader pinv]
    by (simp add: sibling_of_def)
  show ?case
  proof (cases "accepted types ?node")
    case False
    then have na: "\<not> (case attr of None \<Rightarrow> False | Some a \<Rightarrow> IsTypeSelected types a)"
      by (simp add: accepted_def)
    have "valid_path ?sib (roots (out_skeleton (st\<lparr>visited := visited st @ [ptr]\<rparr>)))"
      using v by simp
    from "1.IH"(2) [OF na this] na False show ?thesis
      by (simp add: apply_walk_def split: prod.splits)
  next
    case True
    then have a: "(case attr of None \<Rightarrow> False | Some a \<Rightarrow> IsTypeSelected types a)"
      by (simp add: accepted_def)
    show ?thesis
    proof (cases "fst ?c")
      case False
      have wn: "walk_node ex clusters loader types ?node pinv =
                  (kError, [Joint [] nm (snd ?c)], [joint_error_message nm], [ptr])"
        using True False by (simp add: Let_def case_prod_beta)
      have rn: "RecurseNode ex ?node clusters loader types st parent pinv =
                  (kError, st\<lparr>out_skeleton := \<lparr>roots = ?rs3\<rparr>,
                      err_log := err_log st @ [joint_error_message nm],
                      visited := visited st @ [ptr]\<rparr>)"
        using a False nj by simp
      show ?thesis
        unfolding wn rn by (simp add: apply_walk_def)
    next
      case ok: True
      let ?st3 = "st\<lparr>out_skeleton := \<lparr>roots = ?rs3\<rparr>, visited := visited st @ [ptr]\<rparr>"
      have v3: "valid_path (sibling_of (Some ?tj)) (roots (out_skeleton ?st3))"
        using valid_path_new_joint [OF v] by (simp add: sibling_of_def)
      have ih: "RecurseNode_children ex childs clusters loader types ?st3 (Some ?tj)
                  (mat_Inverse ex ?g) True =
                apply_walk ?st3 ?tj
                  (walk_children ex clusters loader types childs (mat_Inverse ex ?g) True)"
        using "1.IH"(1) [OF a nj [symmetric] refl refl _ v3] ok
        by (simp add: sibling_of_def)
      obtain r js lg vs where wc:
        "walk_children ex clusters loader types childs (mat_Inverse ex ?g) True = (r, js, lg, vs)"
        by (cases "walk_children ex clusters loader types childs (mat_Inverse ex ?g) True") auto
      have wn: "walk_node ex clusters loader types ?node pinv =
                  (r, [Joint js nm (snd ?c)], lg, ptr # vs)"
        using True ok wc by (simp add: Let_def case_prod_beta)
      have rn: "RecurseNode ex ?node clusters loader types st parent pinv =
                  RecurseNode_children ex childs clusters loader types ?st3 (Some ?tj)
                    (mat_Inverse ex ?g) True"
        using a ok nj by simp
      show ?thesis
        unfolding wn rn ih wc
        using append_joint_then_children [OF v, of js "[]" nm "snd ?c"]
        by (simp add: apply_walk_def)
    qed
  qed
next
  case (2 ex clusters loader types st parent pinv found)
  then show ?case
    by (simp add: apply_walk_def)
next
  case (3 ex child rest clusters loader types st parent pinv found)
  let ?sib = "sibling_of parent"
  let ?w = "walk_node ex clusters loader types child pinv"
  have v: "valid_path ?sib (roots (out_skeleton st))" by fact
  have h: "RecurseNode ex child clusters loader types st parent pinv = apply_walk st ?sib ?w"
    by (rule "3.IH"(1) [OF v])
  show ?case
  proof (cases "fst ?w = kError")
    case True
    with h show ?thesis
      by (simp add: apply_walk_def split: prod.splits)
  next
    case False
    let ?st' = "snd (apply_walk st ?sib ?w)"
    have v': "valid_path ?sib (roots (out_skeleton ?st'))"
      using v by (simp add: apply_walk_roots valid_path_update)
    have e: "(fst ?w, ?st') = RecurseNode ex child clusters loader types st parent pinv"
      using h by (simp add: apply_walk_def split: prod.splits)
    have ih: "RecurseNode_children ex rest clusters loader types ?st' parent pinv
                (found \<or> fst ?w = kSkeletonFound) =
              apply_walk ?st' ?sib
                (walk_children ex clusters loader types rest pinv (found \<or> fst ?w = kSkeletonFound))"
      by (rule "3.IH"(2) [OF e False v'])
    show ?thesis
      using h False ih
      by (simp add: apply_walk_def Children_update_twice split: prod.splits)
  qed
qed

section \<open>The bind pose loops\<close>

lemma Find_from_None:
  "map_of es n = None \<Longrightarrow> Find_from es n i = - 1"
  by (induction es arbitrary: i) (auto split: if_splits)

lemma Find_from_Some:
  "map_of es n = Some m \<Longrightarrow> 0 \<le> i \<Longrightarrow>
     i \<le> Find_from es n i \<and> snd (es ! nat (Find_from es n i - i)) = m"
proof (induction es arbitrary: i)
  case Nil
  then show ?case by simp
next
  case (Cons e es)
  show ?case
  proof (cases "fst e = n")
    case True
    with Cons.prems show ?thesis by (cases e) auto
  next
    case False
    with Cons.prems have m: "map_of es n = Some m" by (cases e) auto
    from Cons.IH [OF m, of "i + 1"] Cons.prems(2)
    have le: "i + 1 \<le> Find_from es n (i + 1)"
      and v: "snd (es ! nat (Find_from es n (i + 1) - (i + 1))) = m"
      by auto
    have "nat (Find_from es n (i + 1) - i) = Suc (nat (Find_from es n (i + 1) - (i + 1)))"
      using le by linarith
    with False le v show ?thesis by simp
  qed
qed

lemma pose_loop_step:
  "pose_loop n (q # rest) =
     (case bind_pose_entry q n of Some m \<Rightarrow> Some m | None \<Rightarrow> pose_loop n rest)"
proof (cases q)
  case None
  then show ?thesis by (simp add: bind_pose_entry_def)
next
  case (Some p)
  show ?thesis
  proof (cases "map_of (pose_entries p) n")
    case None
    with Some Find_from_None [OF None, of 0] show ?thesis
      by (simp add: bind_pose_entry_def Find_def)
  next
    case (Some m)
    with \<open>q = Some p\<close> Find_from_Some [OF Some, of 0] show ?thesis
      by (simp add: bind_pose_entry_def Find_def GetMatrix_def)
  qed
qed

lemma pose_loop_eq:
  "pose_loop n poses =
     (case List.map_filter (\<lambda>q. bind_pose_entry q n) poses of [] \<Rightarrow> None | m # _ \<Rightarrow> Some m)"
  by (induction poses)
     (simp_all add: pose_loop_step List.map_filter_simps split: option.splits del: pose_loop.simps(2))

lemma cluster_loop_eq:
  "cluster_loop n clusters =
     map_option GetTransformLinkMatrix (List.find (\<lambda>c. GetLink c = Some n) clusters)"
  by (induction clusters) auto

lemma node_global_of_resolved:
  "node_global_of node clusters loader =
     resolved_bind_pose node clusters (GetPoses (scene loader))"
  by (simp add: node_global_of_def resolved_bind_pose_def cluster_loop_eq pose_loop_eq
        split: option.splits list.splits)

section \<open>Facts about the walk\<close>

lemma walk_node_unfold:
  "walk_node ex cl ld ty (FbxNode ptr nm attr glob mesh childs) pinv =
     (if accepted ty (FbxNode ptr nm attr glob mesh childs)
      then (if \<not> fst (converted ex ld pinv (node_global_of (FbxNode ptr nm attr glob mesh childs) cl ld))
            then (kError,
                  [Joint [] nm (snd (converted ex ld pinv (node_global_of (FbxNode ptr nm attr glob mesh childs) cl ld)))],
                  [joint_error_message nm], [ptr])
            else (fst (walk_children ex cl ld ty childs
                         (mat_Inverse ex (node_global_of (FbxNode ptr nm attr glob mesh childs) cl ld)) True),
                  [Joint (fst (snd (walk_children ex cl ld ty childs
                         (mat_Inverse ex (node_global_of (FbxNode ptr nm attr glob mesh childs) cl ld)) True)))
                     nm (snd (converted ex ld pinv (node_global_of (FbxNode ptr nm attr glob mesh childs) cl ld)))],
                  fst (snd (snd (walk_children ex cl ld ty childs
                         (mat_Inverse ex (node_global_of (FbxNode ptr nm attr glob mesh childs) cl ld)) True))),
                  ptr # snd (snd (snd (walk_children ex cl ld ty childs
                         (mat_Inverse ex (node_global_of (FbxNode ptr nm attr glob mesh childs) cl ld)) True)))))
      else (fst (walk_children ex cl ld ty childs pinv False),
            fst (snd (walk_children ex cl ld ty childs pinv False)),
            fst (snd (snd (walk_children ex cl ld ty childs pinv False))),
            ptr # snd (snd (snd (walk_children ex cl ld ty childs pinv False)))))"
  by (simp add: Let_def case_prod_beta)

lemma walk_children_unfold:
  "walk_children ex cl ld ty (child # rest) pinv found =
     (if fst (walk_node ex cl ld ty child pinv) = kError
      then walk_node ex cl ld ty child pinv
      else (fst (walk_children ex cl ld ty rest pinv
                   (found \<or> fst (walk_node ex cl ld ty child pinv) = kSkeletonFound)),
            fst (snd (walk_node ex cl ld ty child pinv))
            @ fst (snd (walk_children ex cl ld ty rest pinv
                   (found \<or> fst (walk_node ex cl ld ty child pinv) = kSkeletonFound))),
            fst (snd (snd (walk_node ex cl ld ty child pinv)))
            @ fst (snd (snd (walk_children ex cl ld ty rest pinv
                   (found \<or> fst (walk_node ex cl ld ty child pinv) = kSkeletonFound)))),
            snd (snd (snd (walk_node ex cl ld ty child pinv)))
            @ snd (snd (snd (walk_children ex cl ld ty rest pinv
                   (found \<or> fst (walk_node ex cl ld ty child pinv) = kSkeletonFound))))))"
  by (cases "walk_node ex cl ld ty child pinv") (simp add: case_prod_beta)

lemma FbxNode_mutual_induct:
  assumes N: "\<And>ptr nm attr glob mesh childs. Q childs \<Longrightarrow> P (FbxNode ptr nm attr glob mesh childs)"
      and E: "Q []"
      and C: "\<And>child rest. P child \<Longrightarrow> Q rest \<Longrightarrow> Q (child # rest)"
  shows "P node" and "Q nodes"
proof -
  have list: "Q ns" if "\<And>n. n \<in> set ns \<Longrightarrow> P n" for ns
    using that by (induction ns) (auto intro: E C)
  show p: "P node" for node
    by (induction node) (auto intro: N list)
  show "Q nodes"
    by (rule list) (rule p)
qed

lemmas walk_unfold = walk_node_unfold walk_children_unfold walk_children.simps(1)

lemma walk_visited:
  "fst (walk_node ex cl ld ty node pinv) \<noteq> kError \<Longrightarrow>
     snd (snd (snd (walk_node ex cl ld ty node pinv))) = map node_ptr (preorder node)"
  "fst (walk_children ex cl ld ty nodes pinv found) \<noteq> kError \<Longrightarrow>
     snd (snd (snd (walk_children ex cl ld ty nodes pinv found))) =
       map node_ptr (preorder_children nodes)"
  by (induction node and nodes arbitrary: pinv and pinv found rule: FbxNode_mutual_induct)
     (simp_all only: walk_unfold, auto split: if_splits)

lemma walk_log:
  "fst (walk_node ex cl ld ty node pinv) \<noteq> kError \<Longrightarrow>
     fst (snd (snd (walk_node ex cl ld ty node pinv))) = []"
  "fst (walk_children ex cl ld ty nodes pinv found) \<noteq> kError \<Longrightarrow>
     fst (snd (snd (walk_children ex cl ld ty nodes pinv found))) = []"
  by (induction node and nodes arbitrary: pinv and pinv found rule: FbxNode_mutual_induct)
     (simp_all only: walk_unfold, auto split: if_splits)

lemma walk_joints:
  "fst (walk_node ex cl ld ty node pinv) \<noteq> kError \<Longrightarrow>
     fst (snd (walk_node ex cl ld ty node pinv)) = joints_of ex cl ld ty node pinv"
  "fst (walk_children ex cl ld ty nodes pinv found) \<noteq> kError \<Longrightarrow>
     fst (snd (walk_children ex cl ld ty nodes pinv found)) =
       joints_of_children ex cl ld ty nodes pinv"
  by (induction node and nodes arbitrary: pinv and pinv found rule: FbxNode_mutual_induct)
     (simp_all only: walk_unfold, auto split: if_splits simp: Let_def node_global_of_resolved)

lemma walk_conversions:
  "fst (walk_node ex cl ld ty node pinv) \<noteq> kError \<Longrightarrow>
     list_all (\<lambda>ok. ok) (conversions_of ex cl ld ty node pinv)"
  "fst (walk_children ex cl ld ty nodes pinv found) \<noteq> kError \<Longrightarrow>
     list_all (\<lambda>ok. ok) (conversions_of_children ex cl ld ty nodes pinv)"
  by (induction node and nodes arbitrary: pinv and pinv found rule: FbxNode_mutual_induct)
     (simp_all only: walk_unfold, auto split: if_splits simp: Let_def node_global_of_resolved)

lemma walk_found:
  "fst (walk_node ex cl ld ty node pinv) \<noteq> kError \<Longrightarrow>
     (fst (walk_node ex cl ld ty node pinv) = kSkeletonFound) =
       (\<exists>n \<in> set (preorder node). accepted ty n)"
  "fst (walk_children ex cl ld ty nodes pinv found) \<noteq> kError \<Longrightarrow>
     (fst (walk_children ex cl ld ty nodes pinv found) = kSkeletonFound) =
       (found \<or> (\<exists>n \<in> set (preorder_children nodes). accepted ty n))"
  by (induction node and nodes arbitrary: pinv and pinv found rule: FbxNode_mutual_induct)
     (simp_all only: walk_unfold, auto split: if_splits)

lemma walk_error_accepted:
  "fst (walk_node ex cl ld ty node pinv) = kError \<Longrightarrow>
     (\<exists>n \<in> set (preorder node). accepted ty n)"
  "fst (walk_children ex cl ld ty nodes pinv found) = kError \<Longrightarrow>
     (\<exists>n \<in> set (preorder_children nodes). accepted ty n)"
  by (induction node and nodes arbitrary: pinv and pinv found rule: FbxNode_mutual_induct)
     (simp_all only: walk_unfold, (fastforce split: if_splits)+)

lemma walk_error_joints:
  "fst (walk_node ex cl ld ty node pinv) = kError \<Longrightarrow>
     fst (snd (walk_node ex cl ld ty node pinv)) \<noteq> []"
  "fst (walk_children ex cl ld ty nodes pinv found) = kError \<Longrightarrow>
     fst (snd (walk_children ex cl ld ty nodes pinv found)) \<noteq> []"
  by (induction node and nodes arbitrary: pinv and pinv found rule: FbxNode_mutual_induct)
     (simp_all only: walk_unfold, auto split: if_splits)

section \<open>The entry point in terms of the walk\<close>

lemma ExtractSkeleton_walk:
  "ExtractSkeleton ex loader types skel =
     report (apply_walk \<lparr>out_skeleton = skel, err_log = [], visited = []\<rparr> []
       (walk_node ex (CollectClusters (GetRootNode (scene loader)) []) loader types
          (GetRootNode (scene loader)) (mat_identity ex)))"
  by (simp add: ExtractSkeleton_def sibling_of_def RecurseNode_appends(1))

lemma return_cases:
  "r = kError \<or> r = kSkeletonFound \<or> r = kNoSkeleton"
  by (cases r) auto

lemma message_neq:
  "no_skeleton_message \<noteq> extraction_failed_message"
  by (simp add: no_skeleton_message_def extraction_failed_message_def)

lemma ExtractSkeleton_result:
  fixes ex loader types skel
  defines "w \<equiv> walk_node ex (CollectClusters (GetRootNode (scene loader)) []) loader types
          (GetRootNode (scene loader)) (mat_identity ex)"
  shows "fst (ExtractSkeleton ex loader types skel) = (fst w = kSkeletonFound)"
    and "roots (out_skeleton (snd (ExtractSkeleton ex loader types skel))) = roots skel @ fst (snd w)"
    and "visited (snd (ExtractSkeleton ex loader types skel)) = snd (snd (snd w))"
    and "err_log (snd (ExtractSkeleton ex loader types skel)) =
           fst (snd (snd w)) @ (if fst w = kNoSkeleton then [no_skeleton_message]
               else if fst w = kError then [extraction_failed_message] else [])"
  using return_cases [of "fst w"]
  unfolding ExtractSkeleton_walk w_def [symmetric]
  by (auto simp: report_def apply_walk_def case_prod_beta)


lemma forest_names_simps [simp]:
  "forest_names [] = []"
  "forest_names (j # js) = joint_names j @ forest_names js"
  "forest_names (js @ ks) = forest_names js @ forest_names ks"
  by (simp_all add: forest_names_def)

lemma forest_count_simps [simp]:
  "forest_count [] = 0"
  "forest_count (j # js) = joint_count j + forest_count js"
  "forest_count (js @ ks) = forest_count js + forest_count ks"
  by (simp_all add: forest_count_def)

lemma joint_names_forest:
  "joint_names (Joint cs nm t) = nm # forest_names cs"
  by (simp add: forest_names_def)

lemma joint_count_forest:
  "joint_count (Joint cs nm t) = Suc (forest_count cs)"
  by (simp add: forest_count_def)

lemma joints_of_names:
  "forest_names (joints_of ex cl ld ty node pinv) =
     map GetName (filter (accepted ty) (preorder node))"
  "forest_names (joints_of_children ex cl ld ty nodes pinv) =
     map GetName (filter (accepted ty) (preorder_children nodes))"
  by (induction node and nodes arbitrary: pinv and pinv rule: FbxNode_mutual_induct)
     (simp_all add: Let_def joint_names_forest del: joint_names.simps)

lemma joints_of_count:
  "forest_count (joints_of ex cl ld ty node pinv) =
     length (filter (accepted ty) (preorder node))"
  "forest_count (joints_of_children ex cl ld ty nodes pinv) =
     length (filter (accepted ty) (preorder_children nodes))"
  by (induction node and nodes arbitrary: pinv and pinv rule: FbxNode_mutual_induct)
     (simp_all add: Let_def joint_count_forest del: joint_count.simps)

lemma joints_of_shape:
  "map forget_transform (joints_of ex cl ld ty node pinv) = shape_of ty node"
  "map forget_transform (joints_of_children ex cl ld ty nodes pinv) =
     shape_of_children ty nodes"
  by (induction node and nodes arbitrary: pinv and pinv rule: FbxNode_mutual_induct)
     (simp_all add: Let_def)

lemma accepted_any:
  "any ty \<Longrightarrow> accepted ty node = attributed node"
  by (simp add: accepted_def attributed_def IsTypeSelected_def split: option.splits)

lemma walk_no_skeleton:
  "(fst (walk_node ex cl ld ty node pinv) = kNoSkeleton) =
     (filter (accepted ty) (preorder node) = [])"
  using walk_found(1) [of ex cl ld ty node pinv] walk_error_accepted(1) [of ex cl ld ty node pinv]
    return_cases [of "fst (walk_node ex cl ld ty node pinv)"]
  by (auto simp: filter_empty_conv)

lemma joints_of_nonempty:
  "(joints_of ex cl ld ty node pinv \<noteq> []) = (filter (accepted ty) (preorder node) \<noteq> [])"
  "(joints_of_children ex cl ld ty nodes pinv \<noteq> []) =
     (filter (accepted ty) (preorder_children nodes) \<noteq> [])"
  by (induction node and nodes arbitrary: pinv and pinv rule: FbxNode_mutual_induct)
     (simp_all add: Let_def)

lemma ExtractSkeleton_success:
  assumes "fst (ExtractSkeleton ex loader types skel)"
  shows "roots (out_skeleton (snd (ExtractSkeleton ex loader types skel))) =
           roots skel @ joints_of ex (CollectClusters (GetRootNode (scene loader)) []) loader types
             (GetRootNode (scene loader)) (mat_identity ex)"
    and "visited (snd (ExtractSkeleton ex loader types skel)) =
           map node_ptr (preorder (GetRootNode (scene loader)))"
    and "err_log (snd (ExtractSkeleton ex loader types skel)) = []"
    and "filter (accepted types) (preorder (GetRootNode (scene loader))) \<noteq> []"
  using assms walk_no_skeleton [of ex "CollectClusters (GetRootNode (scene loader)) []" loader types
      "GetRootNode (scene loader)" "mat_identity ex"]
  by (simp_all add: ExtractSkeleton_result walk_joints walk_visited walk_log)

lemma ExtractSkeleton_success_conversions:
  assumes "fst (ExtractSkeleton ex loader types skel)"
  shows "list_all (\<lambda>ok. ok)
           (conversions_of ex (CollectClusters (GetRootNode (scene loader)) []) loader types
              (GetRootNode (scene loader)) (mat_identity ex))"
  using assms by (simp add: ExtractSkeleton_result walk_conversions)

lemma added_roots_eq:
  "added_roots skel (ExtractSkeleton ex loader types skel) =
     fst (snd (walk_node ex (CollectClusters (GetRootNode (scene loader)) []) loader types
          (GetRootNode (scene loader)) (mat_identity ex)))"
  by (simp add: added_roots_def ExtractSkeleton_result)

lemma NothingFound_iff:
  "NothingFound (ExtractSkeleton ex loader types skel) =
     (fst (walk_node ex (CollectClusters (GetRootNode (scene loader)) []) loader types
          (GetRootNode (scene loader)) (mat_identity ex)) = kNoSkeleton)"
  using message_neq return_cases [of "fst (walk_node ex (CollectClusters (GetRootNode (scene loader)) [])
          loader types (GetRootNode (scene loader)) (mat_identity ex))"]
  by (auto simp: NothingFound_def ExtractSkeleton_result)

lemma ConversionFailure_iff:
  "ConversionFailure (ExtractSkeleton ex loader types skel) =
     (fst (walk_node ex (CollectClusters (GetRootNode (scene loader)) []) loader types
          (GetRootNode (scene loader)) (mat_identity ex)) = kError)"
  using message_neq return_cases [of "fst (walk_node ex (CollectClusters (GetRootNode (scene loader)) [])
          loader types (GetRootNode (scene loader)) (mat_identity ex))"]
  by (auto simp: ConversionFailure_def ExtractSkeleton_result)

section \<open>The binding collector: facts\<close>

lemma skin_loop_eq:
  "skin_loop skin clusters = clusters @ List.map_filter (\<lambda>c. c) skin"
  by (induction skin arbitrary: clusters) (auto simp: List.map_filter_simps split: option.splits)

lemma deformer_loop_eq:
  "deformer_loop fbx_mesh clusters =
     clusters @ concat (map (List.map_filter (\<lambda>c. c)) fbx_mesh)"
  by (induction fbx_mesh arbitrary: clusters) (auto simp: skin_loop_eq)

lemma CollectClusters_eq:
  "CollectClusters node clusters = clusters @ concat (map own_clusters (preorder node))"
  "CollectClusters_children nodes clusters =
     clusters @ concat (map own_clusters (preorder_children nodes))"
  by (induction node and nodes arbitrary: clusters and clusters rule: FbxNode_mutual_induct)
     (simp_all add: own_clusters_def deformer_loop_eq split: option.splits)

lemma CollectClusters_all:
  "CollectClusters node [] = all_clusters node"
  by (simp add: CollectClusters_eq all_clusters_def)

section \<open>The first failure\<close>

lemma find_append_case:
  "List.find P (xs @ ys) = (case List.find P xs of None \<Rightarrow> List.find P ys | Some x \<Rightarrow> Some x)"
  by (induction xs) auto

lemma takeWhile_append_find:
  "takeWhile (\<lambda>x. \<not> P x) (xs @ ys) =
     (case List.find P xs of
        None \<Rightarrow> xs @ takeWhile (\<lambda>x. \<not> P x) ys
      | Some x \<Rightarrow> takeWhile (\<lambda>x. \<not> P x) xs)"
  by (induction xs) (auto split: option.splits)

lemma ctx_preorder_nodes:
  "map fst (ctx_preorder ex cl ld ty node pinv) = preorder node"
  "map fst (ctx_preorder_children ex cl ld ty nodes pinv) = preorder_children nodes"
  by (induction node and nodes arbitrary: pinv and pinv rule: FbxNode_mutual_induct) simp_all

lemma walk_failure:
  "(case List.find (conversion_fails ex cl ld ty) (ctx_preorder ex cl ld ty node pinv) of
      None \<Rightarrow> fst (walk_node ex cl ld ty node pinv) \<noteq> kError
    | Some fp \<Rightarrow>
        fst (walk_node ex cl ld ty node pinv) = kError
        \<and> fst (snd (snd (walk_node ex cl ld ty node pinv))) = [joint_error_message (GetName (fst fp))]
        \<and> snd (snd (snd (walk_node ex cl ld ty node pinv))) =
            map (\<lambda>x. node_ptr (fst x))
              (takeWhile (\<lambda>x. \<not> conversion_fails ex cl ld ty x) (ctx_preorder ex cl ld ty node pinv) @ [fp]))"
  "(case List.find (conversion_fails ex cl ld ty) (ctx_preorder_children ex cl ld ty nodes pinv) of
      None \<Rightarrow> fst (walk_children ex cl ld ty nodes pinv found) \<noteq> kError
    | Some fp \<Rightarrow>
        fst (walk_children ex cl ld ty nodes pinv found) = kError
        \<and> fst (snd (snd (walk_children ex cl ld ty nodes pinv found))) = [joint_error_message (GetName (fst fp))]
        \<and> snd (snd (snd (walk_children ex cl ld ty nodes pinv found))) =
            map (\<lambda>x. node_ptr (fst x))
              (takeWhile (\<lambda>x. \<not> conversion_fails ex cl ld ty x) (ctx_preorder_children ex cl ld ty nodes pinv) @ [fp]))"
proof (induction node and nodes arbitrary: pinv and pinv found rule: FbxNode_mutual_induct)
  case (1 ptr nm attr glob mesh childs)
  let ?n = "FbxNode ptr nm attr glob mesh childs"
  show ?case
  proof (cases "conversion_fails ex cl ld ty (?n, pinv)")
    case True
    then show ?thesis
      by (simp add: walk_node_unfold conversion_fails_def del: walk_node.simps)
  next
    case False
    show ?thesis
    proof (cases "accepted ty ?n")
      case True
      with False have ok: "fst (converted ex ld pinv (node_global_of ?n cl ld))"
        by (simp add: conversion_fails_def)
      from "1" [of "mat_Inverse ex (node_global_of ?n cl ld)" True] False True ok
      show ?thesis
        by (auto simp: walk_node_unfold split: option.splits simp del: walk_node.simps)
    next
      case na: False
      from "1" [of pinv False] False na
      show ?thesis
        by (auto simp: walk_node_unfold split: option.splits simp del: walk_node.simps)
    qed
  qed
next
  case 2
  show ?case by simp
next
  case (3 child rest)
  show ?case
  proof (cases "List.find (conversion_fails ex cl ld ty) (ctx_preorder ex cl ld ty child pinv)")
    case None
    with "3.IH"(1) [of pinv] have ne: "fst (walk_node ex cl ld ty child pinv) \<noteq> kError"
      by simp
    have vis: "snd (snd (snd (walk_node ex cl ld ty child pinv))) =
                 map (\<lambda>x. node_ptr (fst x)) (ctx_preorder ex cl ld ty child pinv)"
      using walk_visited(1) [OF ne] ctx_preorder_nodes(1) [of ex cl ld ty child pinv, symmetric]
      by (simp add: comp_def)
    from "3.IH"(2) [of pinv "found \<or> fst (walk_node ex cl ld ty child pinv) = kSkeletonFound"]
    show ?thesis
      using None ne vis walk_log(1) [OF ne]
      by (auto simp: walk_children_unfold find_append_case takeWhile_append_find
            split: option.splits simp del: walk_children.simps)
  next
    case (Some fp)
    with "3.IH"(1) [of pinv] show ?thesis
      by (simp add: walk_children_unfold find_append_case takeWhile_append_find
            del: walk_children.simps)
  qed
qed

lemma forest_names_nonempty:
  "js \<noteq> [] \<Longrightarrow> forest_names js \<noteq> []"
  by (cases js; cases "hd js") auto

lemma walk_error_last_name:
  "fst (walk_node ex cl ld ty node pinv) = kError \<Longrightarrow>
     fst (snd (snd (walk_node ex cl ld ty node pinv))) =
       [joint_error_message (last (forest_names (fst (snd (walk_node ex cl ld ty node pinv)))))]"
  "fst (walk_children ex cl ld ty nodes pinv found) = kError \<Longrightarrow>
     fst (snd (snd (walk_children ex cl ld ty nodes pinv found))) =
       [joint_error_message (last (forest_names (fst (snd (walk_children ex cl ld ty nodes pinv found)))))]"
proof (induction node and nodes arbitrary: pinv and pinv found rule: FbxNode_mutual_induct)
  case (1 ptr nm attr glob mesh childs)
  let ?n = "FbxNode ptr nm attr glob mesh childs"
  let ?g = "node_global_of ?n cl ld"
  show ?case
  proof (cases "accepted ty ?n")
    case False
    with "1.prems" "1.IH" [of pinv False] show ?thesis
      by (simp add: walk_node_unfold del: walk_node.simps)
  next
    case True
    show ?thesis
    proof (cases "fst (converted ex ld pinv ?g)")
      case False
      with True show ?thesis
        by (simp add: walk_node_unfold del: walk_node.simps)
    next
      case ok: True
      from "1.prems" True ok
      have e: "fst (walk_children ex cl ld ty childs (mat_Inverse ex ?g) True) = kError"
        by (simp add: walk_node_unfold del: walk_node.simps)
      from walk_error_joints(2) [OF e]
      have "forest_names (fst (snd (walk_children ex cl ld ty childs (mat_Inverse ex ?g) True))) \<noteq> []"
        by (rule forest_names_nonempty)
      with "1.IH" [OF e] True ok show ?thesis
        by (simp add: walk_node_unfold joint_names_forest del: walk_node.simps joint_names.simps)
    qed
  qed
next
  case 2
  then show ?case by (simp split: if_splits)
next
  case (3 child rest)
  show ?case
  proof (cases "fst (walk_node ex cl ld ty child pinv) = kError")
    case True
    with "3.IH"(1) [OF True] show ?thesis
      by (simp add: walk_children_unfold del: walk_children.simps)
  next
    case False
    let ?f = "found \<or> fst (walk_node ex cl ld ty child pinv) = kSkeletonFound"
    from "3.prems" False have e: "fst (walk_children ex cl ld ty rest pinv ?f) = kError"
      by (simp add: walk_children_unfold del: walk_children.simps)
    from walk_error_joints(2) [OF e]
    have "forest_names (fst (snd (walk_children ex cl ld ty rest pinv ?f))) \<noteq> []"
      by (rule forest_names_nonempty)
    with "3.IH"(2) [OF e] False walk_log(1) [OF False] show ?thesis
      by (simp add: walk_children_unfold del: walk_children.simps)
  qed
qed

section \<open>The skinned example\<close>

lemma skinned_clusters:
  "CollectClusters (GetRootNode (scene loader_skinned)) [] =
     [FbxCluster (Some 2) 0, FbxCluster (Some 2) 8]"
  by (simp add: loader_skinned_def scene_skinned_def)

lemma skinned_bind_poses:
  "map (\<lambda>n. node_global_of n (all_clusters (GetRootNode (scene loader_skinned))) loader_skinned)
     (GetChildren (GetRootNode (scene loader_skinned))) = [0, 60, 11]"
  by (simp add: CollectClusters_all [symmetric] skinned_clusters)
     (simp add: loader_skinned_def scene_skinned_def node_global_of_def Find_def GetMatrix_def)

lemma skinned_skeleton:
  "ExtractSkeleton ex0 loader_skinned types_skeleton empty_skeleton =
     (True, \<lparr>out_skeleton = \<lparr>roots = [Joint [] ''A'' 0, Joint [] ''B'' 60, Joint [] ''E'' 11]\<rparr>,
              err_log = [], visited = [1, 2, 3, 4]\<rparr>)"
  by (simp add: ExtractSkeleton_def skinned_clusters)
     (simp add: loader_skinned_def scene_skinned_def ex0_def types_skeleton_def
        empty_skeleton_def IsTypeSelected_def new_joint_def report_def node_global_of_def
        Joint_update_def Joint_at_def convert0_def Find_def GetMatrix_def)

section \<open>The binding collector: the claim\<close>

text \<open>
  C9. The collection started at a node appends, for every node of the subtree in
  pre-order (each node once, whatever its attribute: the classifier is not consulted),
  every non-NULL cluster of every skin deformer of its mesh; and the walk of
  \<open>ExtractSkeleton\<close> is given the complete collection of the whole scene.
\<close>

theorem CollectClusters_complete:
  "CollectClusters node clusters = clusters @ concat (map own_clusters (preorder node))
   \<and> ExtractSkeleton ex loader types skel =
       report (RecurseNode ex (GetRootNode (scene loader))
                 (all_clusters (GetRootNode (scene loader))) loader types
                 \<lparr>out_skeleton = skel, err_log = [], visited = []\<rparr> None (mat_identity ex))"
  by (simp add: CollectClusters_eq(1) ExtractSkeleton_def all_clusters_def)

section \<open>The hierarchy builder: the claims\<close>

text \<open>
  C3. Extraction fails with NothingFound exactly when no node of the scene is accepted;
  in particular a scene without attributed nodes gives NothingFound; and on success the
  call has added at least one root joint.
\<close>

theorem ExtractSkeleton_NothingFound:
  "(NothingFound (ExtractSkeleton ex loader types skel) \<longleftrightarrow>
      filter (accepted types) (preorder (GetRootNode (scene loader))) = [])
   \<and> (filter attributed (preorder (GetRootNode (scene loader))) = [] \<longrightarrow>
        NothingFound (ExtractSkeleton ex loader types skel))
   \<and> (fst (ExtractSkeleton ex loader types skel) \<longrightarrow>
        added_roots skel (ExtractSkeleton ex loader types skel) \<noteq> [])"
proof (intro conjI impI)
  show iff: "NothingFound (ExtractSkeleton ex loader types skel) \<longleftrightarrow>
      filter (accepted types) (preorder (GetRootNode (scene loader))) = []"
    by (simp add: NothingFound_iff walk_no_skeleton)
  show "NothingFound (ExtractSkeleton ex loader types skel)"
    if "filter attributed (preorder (GetRootNode (scene loader))) = []"
  proof -
    have "\<not> accepted types n" if "n \<in> set (preorder (GetRootNode (scene loader)))" for n
      using that \<open>filter attributed _ = []\<close>
      by (auto simp: filter_empty_conv accepted_def attributed_def)
    then show ?thesis
      by (simp add: iff filter_empty_conv)
  qed
  show "added_roots skel (ExtractSkeleton ex loader types skel) \<noteq> []"
    if "fst (ExtractSkeleton ex loader types skel)"
    using ExtractSkeleton_success(1,4) [OF that]
    by (simp add: added_roots_def joints_of_nonempty)
qed

theorem ExtractSkeleton_NothingFound_witness:
  "NothingFound (ExtractSkeleton ex0 loader_bare types_skeleton empty_skeleton)
   \<and> fst (ExtractSkeleton ex0 loader_abc types_skeleton empty_skeleton)
   \<and> added_roots empty_skeleton (ExtractSkeleton ex0 loader_abc types_skeleton empty_skeleton) \<noteq> []"
proof -
  have bare: "filter attributed (preorder (GetRootNode (scene loader_bare))) = []"
    by (simp add: loader_bare_def scene_bare_def attributed_def)
  have ok: "fst (ExtractSkeleton ex0 loader_abc types_skeleton empty_skeleton)"
    by code_simp
  from ExtractSkeleton_NothingFound [of ex0 loader_bare types_skeleton empty_skeleton] bare
    ExtractSkeleton_NothingFound [of ex0 loader_abc types_skeleton empty_skeleton] ok
  show ?thesis by blast
qed

text \<open>
  C4, as stated, fails: when the conversion fails at X the joint X is in the output
  skeleton, under the root joint; the inverse of the root's bind pose times X's bind
  pose is 13, which the converter refuses, and the transform stored in X is 0.
\<close>

theorem ExtractSkeleton_forest_counterexample:
  "roots (out_skeleton (snd (ExtractSkeleton ex0 loader_fail types_skeleton empty_skeleton))) =
     [Joint [Joint [] ''X'' 0] ''root'' 1]
   \<and> mat_times ex0
       (mat_Inverse ex0
          (resolved_bind_pose (GetRootNode (scene loader_fail))
             (all_clusters (GetRootNode (scene loader_fail))) (GetPoses (scene loader_fail))))
       (resolved_bind_pose (hd (GetChildren (GetRootNode (scene loader_fail))))
          (all_clusters (GetRootNode (scene loader_fail))) (GetPoses (scene loader_fail))) = 13
   \<and> transform (Joint [] ''X'' (0::int)) \<noteq> 13
   \<and> ConvertTransform loader_fail 13 (joint_transform0 ex0) = (False, 0)"
proof -
  have r: "roots (out_skeleton (snd (ExtractSkeleton ex0 loader_fail types_skeleton empty_skeleton))) =
             [Joint [Joint [] ''X'' 0] ''root'' 1]"
    by (simp add: ExtractSkeleton_def loader_fail_def scene_fail_def ex0_def
        types_skeleton_def empty_skeleton_def IsTypeSelected_def new_joint_def report_def
        node_global_of_def Joint_update_def Joint_at_def convert0_def)
  have cl: "all_clusters (GetRootNode (scene loader_fail)) = []"
    by (simp add: all_clusters_def own_clusters_def loader_fail_def scene_fail_def)
  show ?thesis
    unfolding r cl
    by (simp add: loader_fail_def scene_fail_def ex0_def convert0_def resolved_bind_pose_def
          List.map_filter_simps)
qed

text \<open>
  C4, amended. On a successful extraction the roots the call adds are the forest
  \<open>joints_of\<close>, and every conversion in it succeeded: every joint's transform is the
  converter's result for the inverse of its nearest accepted ancestor's resolved bind
  pose (the identity for forest roots) times its own resolved bind pose; a node that is
  not accepted is no joint and hands its parent context to its children unchanged, so
  that its accepted descendants hang under the nearest accepted ancestor above it.
\<close>

theorem ExtractSkeleton_forest:
  "fst (ExtractSkeleton ex loader types skel) \<Longrightarrow>
     roots (out_skeleton (snd (ExtractSkeleton ex loader types skel))) =
       roots skel
       @ joints_of ex (all_clusters (GetRootNode (scene loader))) loader types
           (GetRootNode (scene loader)) (mat_identity ex)
     \<and> list_all (\<lambda>ok. ok)
         (conversions_of ex (all_clusters (GetRootNode (scene loader))) loader types
            (GetRootNode (scene loader)) (mat_identity ex))"
  using ExtractSkeleton_success_conversions [of ex loader types skel]
  by (simp add: ExtractSkeleton_success(1) CollectClusters_all)

theorem ExtractSkeleton_forest_witness:
  "fst (ExtractSkeleton ex0 loader_rig types_skeleton empty_skeleton)
   \<and> roots (out_skeleton (snd (ExtractSkeleton ex0 loader_rig types_skeleton empty_skeleton))) =
       [Joint [Joint [Joint [] ''foot'' 3] ''knee'' 5] ''hips'' 2]
   \<and> conversions_of ex0 (all_clusters (GetRootNode (scene loader_rig))) loader_rig
        types_skeleton (GetRootNode (scene loader_rig)) (mat_identity ex0) = [True, True, True]"
proof -
  have ok: "fst (ExtractSkeleton ex0 loader_rig types_skeleton empty_skeleton)"
    by code_simp
  have j: "joints_of ex0 (all_clusters (GetRootNode (scene loader_rig))) loader_rig types_skeleton
            (GetRootNode (scene loader_rig)) (mat_identity ex0) =
           [Joint [Joint [Joint [] ''foot'' 3] ''knee'' 5] ''hips'' 2]"
    by code_simp
  have c: "conversions_of ex0 (all_clusters (GetRootNode (scene loader_rig))) loader_rig
             types_skeleton (GetRootNode (scene loader_rig)) (mat_identity ex0) =
           [True, True, True]"
    by code_simp
  from ExtractSkeleton_forest [OF ok] ok show ?thesis
    by (simp add: j c empty_skeleton_def)
qed

text \<open>
  C6. With the "any" flag set, a successful extraction adds exactly one joint for every
  attributed node: the joints' names in pre-order are the names of the attributed nodes
  in pre-order, and the joint count is the number of attributed nodes.
\<close>

theorem ExtractSkeleton_any:
  "any types \<Longrightarrow> fst (ExtractSkeleton ex loader types skel) \<Longrightarrow>
     forest_names (added_roots skel (ExtractSkeleton ex loader types skel)) =
       map GetName (filter attributed (preorder (GetRootNode (scene loader))))
     \<and> forest_count (added_roots skel (ExtractSkeleton ex loader types skel)) =
       length (filter attributed (preorder (GetRootNode (scene loader))))"
proof -
  assume a: "any types" and ok: "fst (ExtractSkeleton ex loader types skel)"
  have f: "filter (accepted types) (preorder (GetRootNode (scene loader))) =
           filter attributed (preorder (GetRootNode (scene loader)))"
    using a by (simp add: accepted_any cong: filter_cong)
  show ?thesis
    using ExtractSkeleton_success(1) [OF ok]
    by (simp add: added_roots_def joints_of_names joints_of_count f)
qed

theorem ExtractSkeleton_any_witness:
  "any types_any \<and> fst (ExtractSkeleton ex0 loader_abc types_any empty_skeleton)
   \<and> forest_names (added_roots empty_skeleton (ExtractSkeleton ex0 loader_abc types_any empty_skeleton)) =
       [''A'', ''B'', ''C'']
   \<and> forest_count (added_roots empty_skeleton (ExtractSkeleton ex0 loader_abc types_any empty_skeleton)) = 3"
proof -
  have a: "any types_any" by (simp add: types_any_def)
  have ok: "fst (ExtractSkeleton ex0 loader_abc types_any empty_skeleton)"
    by code_simp
  have n: "map GetName (filter attributed (preorder (GetRootNode (scene loader_abc)))) = [''A'', ''B'', ''C'']"
    by (simp add: loader_abc_def scene_abc_def attributed_def)
  have l: "length (filter attributed (preorder (GetRootNode (scene loader_abc)))) = 3"
    by (simp add: loader_abc_def scene_abc_def attributed_def)
  from ExtractSkeleton_any [OF a ok] a ok show ?thesis
    by (simp add: n l)
qed

text \<open>
  C7. On success the added joints, read in depth-first pre-order, are the accepted nodes
  in depth-first pre-order of the scene; and every child list (and the list of added
  roots) holds the joints in the order of their nodes among the scene's children, as
  \<open>shape_of\<close> lays them out.
\<close>

theorem ExtractSkeleton_order:
  "fst (ExtractSkeleton ex loader types skel) \<Longrightarrow>
     forest_names (added_roots skel (ExtractSkeleton ex loader types skel)) =
       map GetName (filter (accepted types) (preorder (GetRootNode (scene loader))))
     \<and> map forget_transform (added_roots skel (ExtractSkeleton ex loader types skel)) =
       shape_of types (GetRootNode (scene loader))"
  using ExtractSkeleton_success(1) [of ex loader types skel]
  by (simp add: added_roots_def joints_of_names joints_of_shape)

theorem ExtractSkeleton_order_witness:
  "fst (ExtractSkeleton ex0 loader_abc types_any empty_skeleton)
   \<and> forest_names (added_roots empty_skeleton (ExtractSkeleton ex0 loader_abc types_any empty_skeleton)) =
       [''A'', ''B'', ''C'']
   \<and> map forget_transform (added_roots empty_skeleton (ExtractSkeleton ex0 loader_abc types_any empty_skeleton)) =
       [Joint [] ''A'' (), Joint [Joint [] ''C'' ()] ''B'' ()]"
proof -
  have ok: "fst (ExtractSkeleton ex0 loader_abc types_any empty_skeleton)"
    by code_simp
  have n: "map GetName (filter (accepted types_any) (preorder (GetRootNode (scene loader_abc)))) =
             [''A'', ''B'', ''C'']"
    by (simp add: loader_abc_def scene_abc_def accepted_def IsTypeSelected_def types_any_def)
  have sh: "shape_of types_any (GetRootNode (scene loader_abc)) =
             [Joint [] ''A'' (), Joint [Joint [] ''C'' ()] ''B'' ()]"
    by (simp add: loader_abc_def scene_abc_def accepted_def IsTypeSelected_def types_any_def)
  from ExtractSkeleton_order [OF ok] ok show ?thesis
    by (simp add: n sh)
qed

text \<open>
  C2. The bind pose of a node is the link transform of the first cluster of the
  collection whose link is the node, whatever comes after it and whatever the poses
  hold; without such a cluster, the matrix the first bind-pose-flagged pose holding the
  node has for it; without either, the node's evaluated world transform. This is the
  \<open>node_global\<close> every new joint is built from.
\<close>

theorem node_global_of_tiers:
  "node_global_of node clusters loader =
     (case List.find (\<lambda>c. GetLink c = Some (node_ptr node)) clusters of
        Some c \<Rightarrow> GetTransformLinkMatrix c
      | None \<Rightarrow>
          (case List.map_filter (\<lambda>q. bind_pose_entry q (node_ptr node))
                  (GetPoses (scene loader)) of
             m # _ \<Rightarrow> m
           | [] \<Rightarrow> EvaluateGlobalTransform node))
   \<and> fst (snd (snd (new_joint ex node clusters loader rs parent pinv))) =
       node_global_of node clusters loader"
  by (simp add: node_global_of_def cluster_loop_eq pose_loop_eq new_joint_def Let_def
        case_prod_beta split: option.splits list.splits)

text \<open>
  C5. When the conversion fails at some node, let \<open>f\<close> be the first such node in
  pre-order, each node taken in the parent context it is reached in. Then extraction
  returns ConversionFailure, the log names the joint of \<open>f\<close>, and the nodes entered are
  exactly the nodes before \<open>f\<close> in pre-order and \<open>f\<close> itself: nothing after \<open>f\<close> in
  traversal order is visited, at any level.
\<close>

theorem ExtractSkeleton_first_failure:
  assumes "List.find (conversion_fails ex (all_clusters (GetRootNode (scene loader))) loader types)
             (ctx_preorder ex (all_clusters (GetRootNode (scene loader))) loader types
                (GetRootNode (scene loader)) (mat_identity ex)) = Some (f, p)"
  shows "ConversionFailure (ExtractSkeleton ex loader types skel)
     \<and> err_log (snd (ExtractSkeleton ex loader types skel)) =
         [joint_error_message (GetName f), extraction_failed_message]
     \<and> visited (snd (ExtractSkeleton ex loader types skel)) =
         map (\<lambda>x. node_ptr (fst x))
           (takeWhile (\<lambda>x. \<not> conversion_fails ex (all_clusters (GetRootNode (scene loader)))
                               loader types x)
              (ctx_preorder ex (all_clusters (GetRootNode (scene loader))) loader types
                 (GetRootNode (scene loader)) (mat_identity ex)))
         @ [node_ptr f]
     \<and> map fst (ctx_preorder ex (all_clusters (GetRootNode (scene loader))) loader types
                  (GetRootNode (scene loader)) (mat_identity ex)) =
         preorder (GetRootNode (scene loader))"
  using assms walk_failure(1) [of ex "all_clusters (GetRootNode (scene loader))" loader types
      "GetRootNode (scene loader)" "mat_identity ex"]
  by (simp add: ConversionFailure_iff ExtractSkeleton_result CollectClusters_all
        ctx_preorder_nodes)

theorem ExtractSkeleton_first_failure_witness:
  "ConversionFailure (ExtractSkeleton ex0 loader_fail types_skeleton empty_skeleton)
   \<and> err_log (snd (ExtractSkeleton ex0 loader_fail types_skeleton empty_skeleton)) =
       [joint_error_message ''X'', extraction_failed_message]
   \<and> visited (snd (ExtractSkeleton ex0 loader_fail types_skeleton empty_skeleton)) = [1, 2]
   \<and> map node_ptr (preorder (GetRootNode (scene loader_fail))) = [1, 2, 3, 4]"
proof -
  let ?X = "FbxNode 2 ''X'' (Some eSkeleton) 14 None [FbxNode 3 ''X1'' (Some eSkeleton) 20 None []]"
  have cl: "all_clusters (GetRootNode (scene loader_fail)) = []"
    by (simp add: all_clusters_def own_clusters_def loader_fail_def scene_fail_def)
  have L: "ctx_preorder ex0 [] loader_fail types_skeleton (GetRootNode (scene loader_fail))
             (mat_identity ex0) =
           [(GetRootNode (scene loader_fail), 0), (?X, - 1),
            (FbxNode 3 ''X1'' (Some eSkeleton) 20 None [], - 14),
            (FbxNode 4 ''Y'' (Some eSkeleton) 3 None [], - 1)]"
    by (simp add: loader_fail_def scene_fail_def ex0_def accepted_def IsTypeSelected_def
          types_skeleton_def node_global_of_def)
  have ok: "\<not> conversion_fails ex0 [] loader_fail types_skeleton (GetRootNode (scene loader_fail), 0)"
    by (simp add: conversion_fails_def converted_def loader_fail_def scene_fail_def ex0_def
          convert0_def node_global_of_def)
  have bad: "conversion_fails ex0 [] loader_fail types_skeleton (?X, - 1)"
    by (simp add: conversion_fails_def converted_def loader_fail_def scene_fail_def ex0_def
          convert0_def node_global_of_def accepted_def IsTypeSelected_def types_skeleton_def)
  have h: "List.find (conversion_fails ex0 (all_clusters (GetRootNode (scene loader_fail)))
                loader_fail types_skeleton)
             (ctx_preorder ex0 (all_clusters (GetRootNode (scene loader_fail))) loader_fail
                types_skeleton (GetRootNode (scene loader_fail)) (mat_identity ex0)) =
           Some (?X, - 1)"
    unfolding cl L using ok bad by simp
  have p: "map node_ptr (preorder (GetRootNode (scene loader_fail))) = [1, 2, 3, 4]"
    by (simp add: loader_fail_def scene_fail_def)
  have r: "node_ptr (GetRootNode (scene loader_fail)) = 1"
    by (simp add: loader_fail_def scene_fail_def)
  from ExtractSkeleton_first_failure [OF h, of empty_skeleton] show ?thesis
    unfolding cl L using ok bad by (simp add: p r)
qed

text \<open>
  C1, as stated, fails: when the conversion fails at X the call returns false and the
  caller's skeleton, empty before, holds the root joint and the failing joint under it.
\<close>

theorem ExtractSkeleton_partial_counterexample:
  "ConversionFailure (ExtractSkeleton ex0 loader_fail types_skeleton empty_skeleton)
   \<and> out_skeleton (snd (ExtractSkeleton ex0 loader_fail types_skeleton empty_skeleton)) \<noteq>
       empty_skeleton
   \<and> roots (out_skeleton (snd (ExtractSkeleton ex0 loader_fail types_skeleton empty_skeleton))) =
       [Joint [Joint [] ''X'' 0] ''root'' 1]"
  by (simp add: ConversionFailure_def ExtractSkeleton_def loader_fail_def scene_fail_def ex0_def
        types_skeleton_def empty_skeleton_def IsTypeSelected_def new_joint_def report_def
        node_global_of_def Joint_update_def Joint_at_def convert0_def
        extraction_failed_message_def)

text \<open>
  C1, amended. If extraction fails with NothingFound, the caller's skeleton is left
  unchanged. If it fails with ConversionFailure, the caller's skeleton keeps its former
  roots and holds in addition the joints added up to the abort (at least one new root),
  the last of them in pre-order being the failing joint the log names: the partial
  skeleton stays in the caller's object. A failure is one of the two.
\<close>

theorem ExtractSkeleton_failure:
  "(NothingFound (ExtractSkeleton ex loader types skel) \<longrightarrow>
      out_skeleton (snd (ExtractSkeleton ex loader types skel)) = skel)
   \<and> (ConversionFailure (ExtractSkeleton ex loader types skel) \<longrightarrow>
        roots (out_skeleton (snd (ExtractSkeleton ex loader types skel))) =
          roots skel @ added_roots skel (ExtractSkeleton ex loader types skel)
        \<and> added_roots skel (ExtractSkeleton ex loader types skel) \<noteq> []
        \<and> err_log (snd (ExtractSkeleton ex loader types skel)) =
            [joint_error_message
               (last (forest_names (added_roots skel (ExtractSkeleton ex loader types skel)))),
             extraction_failed_message])
   \<and> (fst (ExtractSkeleton ex loader types skel)
        \<or> NothingFound (ExtractSkeleton ex loader types skel)
        \<or> ConversionFailure (ExtractSkeleton ex loader types skel))"
proof -
  let ?w = "walk_node ex (CollectClusters (GetRootNode (scene loader)) []) loader types
              (GetRootNode (scene loader)) (mat_identity ex)"
  have nf: "out_skeleton (snd (ExtractSkeleton ex loader types skel)) = skel"
    if "fst ?w = kNoSkeleton"
  proof -
    have ne: "fst ?w \<noteq> kError" using that by simp
    have "filter (accepted types) (preorder (GetRootNode (scene loader))) = []"
      using that by (simp add: walk_no_skeleton)
    then have "fst (snd ?w) = []"
      using joints_of_nonempty(1) [of ex "CollectClusters (GetRootNode (scene loader)) []"
          loader types "GetRootNode (scene loader)" "mat_identity ex"]
      by (simp add: walk_joints(1) [OF ne])
    then have "roots (out_skeleton (snd (ExtractSkeleton ex loader types skel))) = roots skel"
      by (simp add: ExtractSkeleton_result)
    then show ?thesis
      by (cases "out_skeleton (snd (ExtractSkeleton ex loader types skel))"; cases skel) simp
  qed
  have cf: "roots (out_skeleton (snd (ExtractSkeleton ex loader types skel))) =
          roots skel @ added_roots skel (ExtractSkeleton ex loader types skel)
        \<and> added_roots skel (ExtractSkeleton ex loader types skel) \<noteq> []
        \<and> err_log (snd (ExtractSkeleton ex loader types skel)) =
            [joint_error_message
               (last (forest_names (added_roots skel (ExtractSkeleton ex loader types skel)))),
             extraction_failed_message]"
    if "fst ?w = kError"
    using that walk_error_joints(1) [OF that] walk_error_last_name(1) [OF that]
    by (simp add: added_roots_eq ExtractSkeleton_result)
  show ?thesis
    using nf cf return_cases [of "fst ?w"]
    by (auto simp: NothingFound_iff ConversionFailure_iff ExtractSkeleton_result(1))
qed

theorem ExtractSkeleton_failure_witness:
  "NothingFound (ExtractSkeleton ex0 loader_bare types_skeleton empty_skeleton)
   \<and> out_skeleton (snd (ExtractSkeleton ex0 loader_bare types_skeleton empty_skeleton)) =
       empty_skeleton
   \<and> ConversionFailure (ExtractSkeleton ex0 loader_fail types_skeleton empty_skeleton)
   \<and> added_roots empty_skeleton (ExtractSkeleton ex0 loader_fail types_skeleton empty_skeleton) \<noteq> []"
proof -
  have nf: "NothingFound (ExtractSkeleton ex0 loader_bare types_skeleton empty_skeleton)"
    by (simp add: NothingFound_def ExtractSkeleton_def loader_bare_def scene_bare_def ex0_def
        types_skeleton_def empty_skeleton_def report_def)
  have cf: "ConversionFailure (ExtractSkeleton ex0 loader_fail types_skeleton empty_skeleton)"
    by (simp add: ConversionFailure_def ExtractSkeleton_def loader_fail_def scene_fail_def ex0_def
        types_skeleton_def empty_skeleton_def IsTypeSelected_def new_joint_def report_def
        node_global_of_def Joint_update_def Joint_at_def convert0_def)
  from ExtractSkeleton_failure [of ex0 loader_bare types_skeleton empty_skeleton] nf
    ExtractSkeleton_failure [of ex0 loader_fail types_skeleton empty_skeleton] cf
  show ?thesis by blast
qed

section \<open>The float track sampling job: facts and the claim\<close>

lemma upper_bound_le: "upper_bound xs v \<le> length xs"
  by (induction xs) auto

lemma upper_bound_before: "i < upper_bound xs v \<Longrightarrow> xs ! i \<le> v"
proof (induction xs arbitrary: i)
  case Nil
  then show ?case by simp
next
  case (Cons x xs)
  then show ?case by (cases i) (auto split: if_splits)
qed

lemma upper_bound_pos: "xs \<noteq> [] \<Longrightarrow> hd xs \<le> v \<Longrightarrow> 0 < upper_bound xs v"
  by (cases xs) auto

lemma Clamp_range: "0 \<le> Clamp 0 x 1 \<and> Clamp 0 x 1 \<le> 1"
  by (simp add: Clamp_def Let_def)

lemma Clamp_idem: "Clamp 0 (Clamp 0 x 1) 1 = Clamp 0 x 1"
  by (simp add: Clamp_def Let_def)

lemma Run_null:
  "track job = None \<or> result job = None \<Longrightarrow> Run job mem = Some (False, mem)"
  by (auto simp: Run_def Validate_def)

lemma read_at_simps:
  "j < length xs \<Longrightarrow> read_at xs (int j) = Some (xs ! j)"
  "1 \<le> j \<Longrightarrow> j \<le> length xs \<Longrightarrow> read_at xs (int j - 1) = Some (xs ! (j - 1))"
  "2 \<le> j \<Longrightarrow> j \<le> length xs \<Longrightarrow> read_at xs (int j - 2) = Some (xs ! (j - 2))"
  by (auto simp: read_at_def nat_diff_distrib')

lemma Run_sample:
  assumes t: "track job = Some trk" and r: "result job = Some res"
    and wf: "well_formed trk" and two: "2 \<le> length (track_times trk)"
  shows "\<exists>v. Run job mem = Some (True, mem(res := v))"
proof -
  let ?ts = "track_times trk"
  let ?vs = "track_values trk"
  let ?c = "Clamp 0 (time job) 1"
  let ?k = "upper_bound ?ts ?c"
  let ?n = "length ?ts"
  from wf have ne: "?ts \<noteq> []" and st: "sorted_wrt (<) ?ts" and h0: "hd ?ts = 0"
    and len: "length ?vs = ?n"
    by (simp_all add: well_formed_def)
  have kpos: "0 < ?k"
    using upper_bound_pos [OF ne, of ?c] h0 Clamp_range [of "time job"] by simp
  have kle: "?k \<le> ?n" by (rule upper_bound_le)
  show ?thesis
  proof (cases "?k = ?n")
    case True
    have lt: "?ts ! (?n - 2) < ?ts ! (?n - 1)"
      using sorted_wrt_nth_less [OF st, of "?n - 2" "?n - 1"] two by simp
    have "?n - 2 < ?k" using True two by simp
    then have before: "?ts ! (?n - 2) \<le> ?c" by (rule upper_bound_before)
    have "Run job mem = Some (True, mem(res := Lerp (?vs ! (?n - 2)) (?vs ! (?n - 1))
            ((?c - ?ts ! (?n - 2)) / (?ts ! (?n - 1) - ?ts ! (?n - 2)))))"
      using t r len True two before lt
      by (simp add: Run_def Validate_def Let_def read_at_simps)
    then show ?thesis by blast
  next
    case False
    with kle have klt: "?k < ?n" by simp
    have lt: "?ts ! (?k - 1) < ?ts ! ?k"
      using sorted_wrt_nth_less [OF st, of "?k - 1" ?k] kpos klt by simp
    have "?k - 1 < ?k" using kpos by simp
    then have before: "?ts ! (?k - 1) \<le> ?c" by (rule upper_bound_before)
    have "Run job mem = Some (True, mem(res := Lerp (?vs ! (?k - 1)) (?vs ! ?k)
            ((?c - ?ts ! (?k - 1)) / (?ts ! ?k - ?ts ! (?k - 1)))))"
      using t r len False klt kpos before lt
      by (simp add: Run_def Validate_def Let_def read_at_simps)
    then show ?thesis by blast
  qed
qed

lemma Run_clamped:
  "Run (job\<lparr>time := Clamp 0 (time job) 1\<rparr>) mem = Run job mem"
  by (cases "track job"; cases "result job") (simp_all add: Run_def Validate_def Clamp_idem)

text \<open>
  C10, as stated, fails: a track with the single key 0 is well-formed, both pointers are
  set and the time 2 lies outside [0,1], but \<open>Run\<close> reads the key before the first
  one and does not return true.
\<close>

theorem Run_single_key_counterexample:
  "well_formed (the (track single_key_job)) \<and> Validate single_key_job
   \<and> time single_key_job = 2
   \<and> Run single_key_job (\<lambda>a. 0) = None"
  by (simp add: single_key_job_def well_formed_def Validate_def Run_def Clamp_def read_at_def)

text \<open>
  C10, amended. For every job whose track, when there is one, is well-formed and has at
  least two keys, \<open>Run\<close> returns; it returns false exactly when the track or the
  result pointer is NULL, and then the memory is unchanged; with both pointers set it
  returns true for every time, having written one value through the result pointer,
  and it does what it does at the clamped time.
\<close>

theorem Run_returns:
  assumes "job_track_ok job"
  shows "(\<exists>b mem'. Run job mem = Some (b, mem'))
     \<and> (Run job mem = Some (False, mem) \<longleftrightarrow> track job = None \<or> result job = None)
     \<and> (\<forall>mem'. Run job mem = Some (False, mem') \<longrightarrow> mem' = mem)
     \<and> (track job \<noteq> None \<and> result job \<noteq> None \<longrightarrow>
          (\<exists>v. Run job mem = Some (True, mem(the (result job) := v))))
     \<and> Run job mem = Run (job\<lparr>time := Clamp 0 (time job) 1\<rparr>) mem"
proof (cases "track job = None \<or> result job = None")
  case True
  then show ?thesis
    using Run_null [OF True, of mem] by (auto simp: Run_clamped)
next
  case False
  then obtain trk res where t: "track job = Some trk" and r: "result job = Some res"
    by auto
  from assms t have wf: "well_formed trk" and two: "2 \<le> length (track_times trk)"
    by (simp_all add: job_track_ok_def)
  from Run_sample [OF t r wf two, of mem] obtain v where
    "Run job mem = Some (True, mem(res := v))" by blast
  with t r show ?thesis
    by (auto simp: Run_clamped)
qed

theorem Run_returns_witness:
  "job_track_ok two_key_job
   \<and> Run two_key_job (\<lambda>a. 0) = Some (True, (\<lambda>a. 0)(0 := 9))
   \<and> Run (two_key_job\<lparr>time := 1\<rparr>) (\<lambda>a. 0) = Run two_key_job (\<lambda>a. 0)"
proof -
  have ok: "job_track_ok two_key_job"
    by (simp add: job_track_ok_def two_key_job_def well_formed_def)
  have c: "Clamp 0 (time two_key_job) 1 = 1"
    by (simp add: two_key_job_def Clamp_def)
  have run: "Run two_key_job (\<lambda>a. 0) = Some (True, (\<lambda>a. 0)(0 := 9))"
    by (simp add: two_key_job_def Run_def Validate_def Clamp_def read_at_def Lerp_def)
  from Run_returns [OF ok, of "\<lambda>a. 0"] ok run show ?thesis
    by (simp add: c)
qed

end
